theory Spec2Isabelle
  imports Complex_Main "HOL-Library.Word" "HOL-Library.Sublist" "HOL-Library.Multiset"
begin

unbundle bit_operations_syntax

section \<open>Go values\<close>

text \<open>
  A Go \<open>string\<close> is an immutable sequence of bytes and is modelled as \<open>string\<close>
  (a list of 8-bit characters); a \<open>[]byte\<close> is a list of 8-bit words. The conversions
  \<open>[]byte(s)\<close> and \<open>string(b)\<close> copy the bytes one for one. An \<open>error\<close> built with
  \<open>fmt.Errorf\<close> is modelled by its message text, and a \<open>(T, error)\<close> result by
  \<open>string + T\<close> with \<open>Inl\<close> carrying the message.
\<close>

type_synonym byte = "8 word"
type_synonym uint16 = "16 word"
type_synonym uint32 = "32 word"
type_synonym int64 = "64 word"

definition bytes_of_string :: "string \<Rightarrow> byte list" where
  "bytes_of_string s = map of_char s"

definition string_of_bytes :: "byte list \<Rightarrow> string" where
  "string_of_bytes b = map (\<lambda>w. char_of (unat w)) b"

section \<open>pkg/agora/token.go\<close>

text \<open>
  The standard-library primitives the token builder calls (\<open>crypto/hmac\<close> with
  \<open>sha256.New\<close>, \<open>crc32.ChecksumIEEE\<close>, \<open>base64.StdEncoding.EncodeToString\<close>) are
  not part of the repository; they are parameters of the model.
\<close>

record stdlib =
  hmac_sha256 :: "byte list \<Rightarrow> byte list \<Rightarrow> byte list"
  crc32_ChecksumIEEE :: "byte list \<Rightarrow> uint32"
  base64_EncodeToString :: "byte list \<Rightarrow> string"

definition RolePublisher :: int where "RolePublisher = 1"
definition RoleSubscriber :: int where "RoleSubscriber = 2"

definition PrivilegeJoinChannel :: uint16 where "PrivilegeJoinChannel = 1"
definition PrivilegePublishAudioStream :: uint16 where "PrivilegePublishAudioStream = 2"
definition PrivilegePublishVideoStream :: uint16 where "PrivilegePublishVideoStream = 3"
definition PrivilegePublishDataStream :: uint16 where "PrivilegePublishDataStream = 4"

record AccessToken =
  AppID :: string
  AppCertificate :: string
  ChannelName :: string
  UID :: string
  Ts :: uint32
  Salt :: uint32
  Message :: "uint16 \<rightharpoonup> uint32"
  Signature :: string
  CrcChannelName :: uint32
  CrcUID :: uint32

text \<open>
  \<open>NewAccessToken\<close> reads the clock (\<open>time.Now().Unix()\<close>, an int64 converted to uint32)
  and draws \<open>rand.Uint32()\<close>; both values are arguments here. \<open>24*3600\<close> is added in
  uint32 arithmetic.
\<close>

definition NewAccessToken ::
  "stdlib \<Rightarrow> int64 \<Rightarrow> uint32 \<Rightarrow> string \<Rightarrow> string \<Rightarrow> string \<Rightarrow> string \<Rightarrow> AccessToken" where
  "NewAccessToken L now rnd appID appCertificate channelName uid =
     (let ts = (ucast now :: uint32) + 24 * 3600;
          salt = rnd
      in \<lparr>AppID = appID,
          AppCertificate = appCertificate,
          ChannelName = channelName,
          UID = uid,
          Ts = ts,
          Salt = salt,
          Message = Map.empty,
          Signature = [],
          CrcChannelName = crc32_ChecksumIEEE L (bytes_of_string channelName),
          CrcUID = crc32_ChecksumIEEE L (bytes_of_string uid)\<rparr>)"

definition AddPrivilege :: "AccessToken \<Rightarrow> uint16 \<Rightarrow> uint32 \<Rightarrow> AccessToken" where
  "AddPrivilege token privilege expireTimestamp =
     token\<lparr>Message := (Message token)(privilege \<mapsto> expireTimestamp)\<rparr>"

text \<open>
  \<open>binary.LittleEndian.PutUint16\<close> and \<open>PutUint32\<close> store \<open>byte(v)\<close>, \<open>byte(v >> 8)\<close>,
  ... in ascending positions; a \<open>bytes.Buffer\<close> is the list of bytes written so far.
\<close>

definition packUint16ToBuf :: "byte list \<Rightarrow> uint16 \<Rightarrow> byte list" where
  "packUint16ToBuf buf val = buf @ [ucast val, ucast (drop_bit 8 val)]"

definition packUint32ToBuf :: "byte list \<Rightarrow> uint32 \<Rightarrow> byte list" where
  "packUint32ToBuf buf val =
     buf @ [ucast val, ucast (drop_bit 8 val), ucast (drop_bit 16 val), ucast (drop_bit 24 val)]"

definition packBytesToBuf :: "byte list \<Rightarrow> byte list \<Rightarrow> byte list" where
  "packBytesToBuf buf val = packUint16ToBuf buf (of_nat (length val)) @ val"

text \<open>
  Go leaves the order in which \<open>for k := range val\<close> visits a map unspecified. The model
  takes that order as the argument \<open>iter\<close>: \<open>iter val\<close> is the sequence of keys the loop
  yields, and \<open>range_order iter val\<close> says that it visits every key of \<open>val\<close> exactly once.
  A lookup \<open>val[k]\<close> of a missing key yields the zero value. \<open>sort.Slice\<close> with the
  comparison \<open>keys[i] < keys[j]\<close> is modelled by \<open>sort\<close>.
\<close>

definition range_order :: "((uint16 \<rightharpoonup> uint32) \<Rightarrow> uint16 list) \<Rightarrow> (uint16 \<rightharpoonup> uint32) \<Rightarrow> bool" where
  "range_order iter val \<longleftrightarrow> distinct (iter val) \<and> set (iter val) = dom val"

definition index_map :: "(uint16 \<rightharpoonup> uint32) \<Rightarrow> uint16 \<Rightarrow> uint32" where
  "index_map val k = (case val k of None \<Rightarrow> 0 | Some v \<Rightarrow> v)"

definition packMapUint32ToBuf ::
  "((uint16 \<rightharpoonup> uint32) \<Rightarrow> uint16 list) \<Rightarrow> byte list \<Rightarrow> (uint16 \<rightharpoonup> uint32) \<Rightarrow> byte list" where
  "packMapUint32ToBuf iter buf val =
     (let keys = foldl (\<lambda>ks k. ks @ [k]) [] (iter val);
          keys = sort keys;
          buf = packUint16ToBuf buf (of_nat (card (dom val)))
      in foldl (\<lambda>b k. packUint32ToBuf (packUint16ToBuf b k) (index_map val k)) buf keys)"

definition packMessage :: "((uint16 \<rightharpoonup> uint32) \<Rightarrow> uint16 list) \<Rightarrow> AccessToken \<Rightarrow> byte list" where
  "packMessage iter token =
     (let buf = [];
          buf = packUint32ToBuf buf (Salt token);
          buf = packUint32ToBuf buf (Ts token);
          buf = packMapUint32ToBuf iter buf (Message token)
      in buf)"

definition packContent :: "byte list \<Rightarrow> uint32 \<Rightarrow> uint32 \<Rightarrow> byte list \<Rightarrow> byte list" where
  "packContent sig crcChannel crcUid msg =
     (let buf = [];
          buf = packBytesToBuf buf sig;
          buf = packUint32ToBuf buf crcChannel;
          buf = packUint32ToBuf buf crcUid;
          buf = packBytesToBuf buf msg
      in buf)"

definition hmacSign :: "stdlib \<Rightarrow> string \<Rightarrow> string \<Rightarrow> byte list" where
  "hmacSign L key msg = hmac_sha256 L (bytes_of_string key) (bytes_of_string msg)"

definition Build ::
  "stdlib \<Rightarrow> ((uint16 \<rightharpoonup> uint32) \<Rightarrow> uint16 list) \<Rightarrow> AccessToken \<Rightarrow> string + string" where
  "Build L iter token =
     (let msg = packMessage iter token;
          val = AppID token @ ChannelName token @ UID token @ string_of_bytes msg;
          sig = hmacSign L (AppCertificate token) val;
          crcChannel = crc32_ChecksumIEEE L (bytes_of_string (ChannelName token));
          crcUid = crc32_ChecksumIEEE L (bytes_of_string (UID token));
          content = packContent sig crcChannel crcUid msg;
          result = ''006'' @ AppID token @ base64_EncodeToString L content
      in Inr result)"

text \<open>
  \<open>GenerateRTCToken\<close> reads the clock a second time for the privilege expiry; the two
  readings are the arguments \<open>now\<^sub>1\<close> (inside \<open>NewAccessToken\<close>) and \<open>now\<^sub>2\<close>.
\<close>

definition GenerateRTCToken ::
  "stdlib \<Rightarrow> ((uint16 \<rightharpoonup> uint32) \<Rightarrow> uint16 list) \<Rightarrow> int64 \<Rightarrow> uint32 \<Rightarrow> int64 \<Rightarrow>
   string \<Rightarrow> string \<Rightarrow> string \<Rightarrow> string \<Rightarrow> int \<Rightarrow> uint32 \<Rightarrow> string + string" where
  "GenerateRTCToken L iter now\<^sub>1 rnd now\<^sub>2 appID appCertificate channelName uid role expireSeconds =
     (if appID = [] then Inl ''appID is required''
      else if appCertificate = [] then Inl ''appCertificate is required''
      else
        let token = NewAccessToken L now\<^sub>1 rnd appID appCertificate channelName uid;
            expireTimestamp = (ucast now\<^sub>2 :: uint32) + expireSeconds;
            token = AddPrivilege token PrivilegeJoinChannel expireTimestamp;
            token = (if role = RolePublisher
                     then let token = AddPrivilege token PrivilegePublishAudioStream expireTimestamp;
                              token = AddPrivilege token PrivilegePublishVideoStream expireTimestamp;
                              token = AddPrivilege token PrivilegePublishDataStream expireTimestamp
                          in token
                     else token)
        in Build L iter token)"

subsection \<open>The wire format in the specification's words\<close>

text \<open>
  The layout of section 4.1 of the specification, written independently of the packing
  functions above: integers least significant byte first, byte strings preceded by their
  uint16 length, the privilege entries in ascending order of their code.
\<close>

fun little_endian :: "nat \<Rightarrow> nat \<Rightarrow> byte list" where
  "little_endian 0 v = []"
| "little_endian (Suc n) v = of_nat (v mod 256) # little_endian n (v div 256)"

definition length_prefixed :: "byte list \<Rightarrow> byte list" where
  "length_prefixed bs = little_endian 2 (length bs mod 65536) @ bs"

definition privilege_entry :: "(uint16 \<rightharpoonup> uint32) \<Rightarrow> uint16 \<Rightarrow> byte list" where
  "privilege_entry m k = little_endian 2 (unat k) @ little_endian 4 (unat (the (m k)))"

definition privilege_section :: "(uint16 \<rightharpoonup> uint32) \<Rightarrow> byte list" where
  "privilege_section m =
     little_endian 2 (card (dom m) mod 65536) @
     concat (map (privilege_entry m) (sorted_list_of_set (dom m)))"

definition inner_message :: "uint32 \<Rightarrow> uint32 \<Rightarrow> (uint16 \<rightharpoonup> uint32) \<Rightarrow> byte list" where
  "inner_message salt ts m =
     little_endian 4 (unat salt) @ little_endian 4 (unat ts) @ privilege_section m"

definition outer_content ::
  "stdlib \<Rightarrow> string \<Rightarrow> string \<Rightarrow> string \<Rightarrow> string \<Rightarrow> byte list \<Rightarrow> byte list" where
  "outer_content L appIdentity appCertificate channelName userIdentity inner =
     length_prefixed
       (hmac_sha256 L (bytes_of_string appCertificate)
          (bytes_of_string appIdentity @ bytes_of_string channelName @
           bytes_of_string userIdentity @ inner)) @
     little_endian 4 (unat (crc32_ChecksumIEEE L (bytes_of_string channelName))) @
     little_endian 4 (unat (crc32_ChecksumIEEE L (bytes_of_string userIdentity))) @
     length_prefixed inner"

text \<open>The grants of section 4.1: join always, the three publish privileges for a publisher.\<close>

definition granted :: "int \<Rightarrow> uint32 \<Rightarrow> (uint16 \<rightharpoonup> uint32)" where
  "granted role e =
     (if role = RolePublisher
      then [PrivilegeJoinChannel \<mapsto> e, PrivilegePublishAudioStream \<mapsto> e,
            PrivilegePublishVideoStream \<mapsto> e, PrivilegePublishDataStream \<mapsto> e]
      else [PrivilegeJoinChannel \<mapsto> e])"

text \<open>
  Stand-ins for the library primitives, used only to instantiate the general theorems at
  concrete inputs.
\<close>

definition sample_stdlib :: stdlib where
  "sample_stdlib =
     \<lparr>hmac_sha256 = (\<lambda>key msg. replicate 32 (of_nat (length key + length msg))),
      crc32_ChecksumIEEE = (\<lambda>b. of_nat (length b)),
      base64_EncodeToString = string_of_bytes\<rparr>"

text \<open>A sequence of \<open>AddPrivilege\<close> calls, in the order of the list.\<close>

abbreviation AddPrivileges :: "AccessToken \<Rightarrow> (uint16 \<times> uint32) list \<Rightarrow> AccessToken" where
  "AddPrivileges t ps \<equiv> foldl (\<lambda>t (p, e). AddPrivilege t p e) t ps"

section \<open>pkg/agora/client.go\<close>

text \<open>
  A decoded JSON value, as \<open>encoding/json\<close> stores it in an \<open>interface{}\<close>: numbers are
  float64 (every finite float64 is a rational), objects are \<open>map[string]interface{}\<close>.
  The same type describes the request bodies the client builds.
\<close>

datatype json =
    JNull
  | JBool bool
  | JNumber rat
  | JString string
  | JArray "json list"
  | JObject "(string \<times> json) list"

text \<open>Type assertions \<open>v.(string)\<close>, \<open>v.([]interface{})\<close>, \<open>v.(map[string]interface{})\<close> and
  \<open>v.(float64)\<close> on the result of indexing a map; a missing key yields nil and fails them all.\<close>

fun as_string :: "json option \<Rightarrow> string option" where
  "as_string (Some (JString s)) = Some s"
| "as_string _ = None"

fun as_array :: "json option \<Rightarrow> json list option" where
  "as_array (Some (JArray xs)) = Some xs"
| "as_array _ = None"

fun as_object :: "json option \<Rightarrow> (string \<times> json) list option" where
  "as_object (Some (JObject kvs)) = Some kvs"
| "as_object _ = None"

fun as_float64 :: "json option \<Rightarrow> rat option" where
  "as_float64 (Some (JNumber x)) = Some x"
| "as_float64 _ = None"

text \<open>
  The conversions \<open>int64(f)\<close> and \<open>int(f)\<close> of a float64 (\<open>int\<close> is 64 bits wide): the
  fraction is discarded, rounding towards zero. For a value that does not fit the language
  leaves the result to the implementation; the model takes the result of the amd64
  conversion instruction, the smallest int64.
\<close>

definition float64_to_int64 :: "rat \<Rightarrow> int" where
  "float64_to_int64 x =
     (let t = (if 0 \<le> x then \<lfloor>x\<rfloor> else \<lceil>x\<rceil>)
      in if - (2 ^ 63) \<le> t \<and> t < 2 ^ 63 then t else - (2 ^ 63))"

text \<open>\<open>strings.Contains\<close> and \<open>strings.HasSuffix\<close>.\<close>

primrec Contains :: "string \<Rightarrow> string \<Rightarrow> bool" where
  "Contains [] substr = (substr = [])"
| "Contains (c # s) substr = (prefix substr (c # s) \<or> Contains s substr)"

definition HasSuffix :: "string \<Rightarrow> string \<Rightarrow> bool" where
  "HasSuffix s sfx = suffix sfx s"

text \<open>The verb \<open>%d\<close> of \<open>fmt\<close> on an int: decimal digits, with a minus sign when negative.\<close>

definition digit_char :: "nat \<Rightarrow> char" where
  "digit_char d = char_of (48 + d)"

fun nat_digits :: "nat \<Rightarrow> string" where
  "nat_digits n = (if n < 10 then [digit_char n] else nat_digits (n div 10) @ [digit_char (n mod 10)])"

definition format_d :: "int \<Rightarrow> string" where
  "format_d i = (if i < 0 then CHR ''-'' # nat_digits (nat (- i)) else nat_digits (nat i))"

record S3Config =
  Vendor :: int
  Region :: int
  Bucket :: string
  AccessKey :: string
  SecretKey :: string
  FileNamePrefix :: "string list"

text \<open>The field \<open>httpClient\<close> is represented by the transport of the environment below.\<close>

record Client =
  appID :: string
  appCertificate :: string
  encodedKey :: string
  s3Config :: S3Config

record RecordingResult =
  Success :: bool
  ResourceID :: string
  SID :: string
  FileName :: string
  S3Key :: string
  S3URL :: string
  FileList :: "string list"
  FileSize :: int
  Duration :: int

definition empty_RecordingResult :: RecordingResult where
  "empty_RecordingResult =
     \<lparr>Success = False, ResourceID = [], SID = [], FileName = [], S3Key = [], S3URL = [],
      FileList = [], FileSize = 0, Duration = 0\<rparr>"

text \<open>The models of the database tables that the recording service reads and writes
  (package \<open>models\<close>), restricted to the fields it uses. \<open>sql.NullString\<close> keeps its two fields;
  \<open>uint\<close> is taken as 64 bits wide.\<close>

record NullString =
  ns_String :: string
  ns_Valid :: bool

record MeetingRoom =
  meeting_LoadID :: "64 word"
  meeting_LoadNumber :: NullString

record Gallery =
  gallery_LoadID :: "64 word"
  gallery_FileName :: string
  gallery_S3Key :: string
  gallery_VideoRecordingKey :: string

text \<open>
  Everything outside the process is observed through a trace of events, appended to in
  program order: HTTP requests handed to the transport, calls of \<open>time.Sleep\<close> (in
  nanoseconds), the two repository calls of the recording service and what it prints with
  \<open>fmt.Printf\<close>. What the outside answers may depend on everything that happened before,
  so each answer is a function of the trace so far. The JSON codec, \<open>http.NewRequest\<close> and
  \<open>os.Getenv\<close> are library functions and parameters as well. The \<open>log.Printf\<close> lines of
  the client are not modelled.
\<close>

datatype event =
    HttpDo string string "(string \<times> string) list" "string option"
  | Sleep int
  | GetByRoomID string
  | GalleryCreate Gallery
  | Printf string

datatype http_response = Response int "string + string"

record env =
  json_Marshal :: "json \<Rightarrow> string + string"
  json_Unmarshal :: "string \<Rightarrow> string + (string \<times> json) list"
  http_NewRequest :: "string \<Rightarrow> string \<Rightarrow> string option"
  http_Do :: "event list \<Rightarrow> string \<Rightarrow> string \<Rightarrow> (string \<times> string) list \<Rightarrow> string option \<Rightarrow>
              string + http_response"
  os_Getenv :: "string \<Rightarrow> string"
  meetingRepo_GetByRoomID :: "event list \<Rightarrow> string \<Rightarrow> string + MeetingRoom"
  galleryRepo_Create :: "event list \<Rightarrow> Gallery \<Rightarrow> string option"

definition getBaseURL :: "Client \<Rightarrow> string" where
  "getBaseURL c = ''https://api.agora.io/v1/apps/'' @ appID c"

text \<open>
  \<open>makeRequest\<close>. \<open>http.NewRequest\<close> answers with its error, if any; \<open>http_Do\<close> answers
  with a transport error or with a status code and the outcome of reading the body
  (\<open>Inl\<close> a read error, \<open>Inr\<close> the bytes).
\<close>

definition makeRequest ::
  "env \<Rightarrow> Client \<Rightarrow> string \<Rightarrow> string \<Rightarrow> json option \<Rightarrow> event list \<Rightarrow>
   (string + (string \<times> json) list) \<times> event list" where
  "makeRequest E c endpoint method body tr =
     (if encodedKey c = [] then
        (Inl ''Agora REST API credentials not configured. Set AGORA_ENCODED_KEY or both AGORA_CUSTOMER_ID and AGORA_CUSTOMER_SECRET environment variables'', tr)
      else
        let url = getBaseURL c @ endpoint in
        case (case body of None \<Rightarrow> Inr None
              | Some b \<Rightarrow> (case json_Marshal E b of Inl err \<Rightarrow> Inl err | Inr jsonBody \<Rightarrow> Inr (Some jsonBody))) of
          Inl err \<Rightarrow> (Inl (''failed to marshal request body: '' @ err), tr)
        | Inr reqBody \<Rightarrow>
            (case http_NewRequest E method url of
               Some err \<Rightarrow> (Inl (''failed to create request: '' @ err), tr)
             | None \<Rightarrow>
                 let headers = [(''Authorization'', ''Basic '' @ encodedKey c),
                                (''Content-Type'', ''application/json'')];
                     tr' = tr @ [HttpDo method url headers reqBody]
                 in case http_Do E tr method url headers reqBody of
                   Inl err \<Rightarrow> (Inl (''request failed: '' @ err), tr')
                 | Inr (Response StatusCode read) \<Rightarrow>
                     (case read of
                        Inl err \<Rightarrow> (Inl (''failed to read response: '' @ err), tr')
                      | Inr respBody \<Rightarrow>
                          (case json_Unmarshal E respBody of
                             Inl err \<Rightarrow>
                               if StatusCode \<ge> 400
                               then (Inl (''API error (status '' @ format_d StatusCode @ ''): '' @ respBody), tr')
                               else (Inl (''failed to parse response: '' @ err), tr')
                           | Inr result \<Rightarrow>
                               if StatusCode \<ge> 400 then
                                 let errMsg =
                                   (case as_string (map_of result ''error'') of
                                      Some e \<Rightarrow> e
                                    | None \<Rightarrow>
                                        (case as_string (map_of result ''message'') of
                                           Some m \<Rightarrow> m
                                         | None \<Rightarrow>
                                             (case as_string (map_of result ''reason'') of
                                                Some r \<Rightarrow> r
                                              | None \<Rightarrow> [])))
                                 in if StatusCode = 401
                                    then (Inl ''Invalid authentication credentials. Please verify your AGORA_CUSTOMER_ID and AGORA_CUSTOMER_SECRET (or AGORA_ENCODED_KEY). Get these from Agora Console > RESTful API'', tr')
                                    else (Inl (''API error (status '' @ format_d StatusCode @ ''): '' @ errMsg), tr')
                               else (Inr result, tr')))))"

text \<open>
  \<open>for _, r := range s\<close> decodes the string as UTF-8, one code point at a time; an invalid
  sequence yields \<open>utf8.RuneError\<close> (U+FFFD) and advances by one byte. \<open>DecodeRune s\<close> is the
  first code point of \<open>s\<close> and the number of bytes it occupies. The acceptance ranges of the
  second byte and the bit masks are those of package \<open>unicode/utf8\<close>; on bytes, masking with
  \<open>0x1F\<close>, \<open>0x0F\<close>, \<open>0x07\<close>, \<open>0x3F\<close> is \<open>mod\<close> 32, 16, 8, 64 and the shifted fields do not
  overlap, so the bitwise or is a sum.
\<close>

definition RuneError :: nat where "RuneError = 65533"

definition continuation :: "nat \<Rightarrow> bool" where
  "continuation b \<longleftrightarrow> 128 \<le> b \<and> b \<le> 191"

definition accept_lo :: "nat \<Rightarrow> nat" where
  "accept_lo b0 = (if b0 = 224 then 160 else if b0 = 240 then 144 else 128)"

definition accept_hi :: "nat \<Rightarrow> nat" where
  "accept_hi b0 = (if b0 = 237 then 159 else if b0 = 244 then 143 else 191)"

fun DecodeRune :: "string \<Rightarrow> nat \<times> nat" where
  "DecodeRune [] = (RuneError, 0)"
| "DecodeRune (c0 # rest) =
     (let b0 = (of_char c0 :: nat) in
      if b0 < 128 then (b0, 1)
      else if 194 \<le> b0 \<and> b0 \<le> 223 then
        (case rest of
           c1 # _ \<Rightarrow>
             let b1 = (of_char c1 :: nat) in
             if accept_lo b0 \<le> b1 \<and> b1 \<le> accept_hi b0
             then ((b0 mod 32) * 64 + b1 mod 64, 2)
             else (RuneError, 1)
         | _ \<Rightarrow> (RuneError, 1))
      else if 224 \<le> b0 \<and> b0 \<le> 239 then
        (case rest of
           c1 # c2 # _ \<Rightarrow>
             let b1 = (of_char c1 :: nat); b2 = (of_char c2 :: nat) in
             if accept_lo b0 \<le> b1 \<and> b1 \<le> accept_hi b0 \<and> continuation b2
             then ((b0 mod 16) * 4096 + (b1 mod 64) * 64 + b2 mod 64, 3)
             else (RuneError, 1)
         | _ \<Rightarrow> (RuneError, 1))
      else if 240 \<le> b0 \<and> b0 \<le> 244 then
        (case rest of
           c1 # c2 # c3 # _ \<Rightarrow>
             let b1 = (of_char c1 :: nat); b2 = (of_char c2 :: nat); b3 = (of_char c3 :: nat) in
             if accept_lo b0 \<le> b1 \<and> b1 \<le> accept_hi b0 \<and> continuation b2 \<and> continuation b3
             then ((b0 mod 8) * 262144 + (b1 mod 64) * 4096 + (b2 mod 64) * 64 + b3 mod 64, 4)
             else (RuneError, 1)
         | _ \<Rightarrow> (RuneError, 1))
      else (RuneError, 1))"

text \<open>
  \<open>cleanAlphanumeric\<close>: the loop over the code points of \<open>s\<close>, with the builder as
  accumulator. \<open>WriteRune\<close> is only reached with an ASCII code point, which it writes as
  the single byte of that value.
\<close>

definition alphanumeric_rune :: "nat \<Rightarrow> bool" where
  "alphanumeric_rune r \<longleftrightarrow>
     (r \<ge> of_char CHR ''a'' \<and> r \<le> of_char CHR ''z'') \<or>
     (r \<ge> of_char CHR ''A'' \<and> r \<le> of_char CHR ''Z'') \<or>
     (r \<ge> of_char CHR ''0'' \<and> r \<le> of_char CHR ''9'')"

function cleanAlphanumeric_loop :: "string \<Rightarrow> string \<Rightarrow> string" where
  "cleanAlphanumeric_loop [] result = result"
| "cleanAlphanumeric_loop (c # s) result =
     (case DecodeRune (c # s) of
        (r, width) \<Rightarrow>
          cleanAlphanumeric_loop (drop width (c # s))
            (if alphanumeric_rune r then result @ [char_of r] else result))"
  by pat_completeness auto
termination
  by (relation "measure (\<lambda>(s, result). length s)")
    (auto simp: Let_def split: if_splits list.splits)

definition cleanAlphanumeric :: "string \<Rightarrow> string" where
  "cleanAlphanumeric s = cleanAlphanumeric_loop s []"

text \<open>The file-name prefix that \<open>StartRecording\<close> computes for the storage configuration.\<close>

definition fileNamePrefix_of :: "string \<Rightarrow> string list" where
  "fileNamePrefix_of loadNumber =
     (let fileNamePrefix = [''recordings''] in
      if loadNumber \<noteq> [] then
        let cleanLoadNumber = cleanAlphanumeric loadNumber in
        if cleanLoadNumber \<noteq> [] then [''recordings'', cleanLoadNumber] else fileNamePrefix
      else fileNamePrefix)"

definition acquireBody :: "string \<Rightarrow> string \<Rightarrow> json" where
  "acquireBody channelName uid =
     JObject [(''cname'', JString channelName),
              (''uid'', JString uid),
              (''clientRequest'', JObject [(''resourceExpiredHour'', JNumber 24), (''scene'', JNumber 0)])]"

definition storageConfig :: "Client \<Rightarrow> string list \<Rightarrow> json" where
  "storageConfig c fileNamePrefix =
     JObject [(''vendor'', JNumber (of_int (Vendor (s3Config c)))),
              (''region'', JNumber (of_int (Region (s3Config c)))),
              (''bucket'', JString (Bucket (s3Config c))),
              (''accessKey'', JString (AccessKey (s3Config c))),
              (''secretKey'', JString (SecretKey (s3Config c))),
              (''fileNamePrefix'', JArray (map JString fileNamePrefix))]"

definition startBody :: "Client \<Rightarrow> string \<Rightarrow> string \<Rightarrow> string \<Rightarrow> string list \<Rightarrow> json" where
  "startBody c channelName uid token fileNamePrefix =
     JObject [(''cname'', JString channelName),
              (''uid'', JString uid),
              (''clientRequest'', JObject
                 [(''token'', JString token),
                  (''recordingConfig'', JObject
                     [(''channelType'', JNumber 0),
                      (''streamTypes'', JNumber 2),
                      (''maxIdleTime'', JNumber 30),
                      (''streamMode'', JString ''standard''),
                      (''videoStreamType'', JNumber 0),
                      (''transcodingConfig'', JObject
                         [(''width'', JNumber 640),
                          (''height'', JNumber 480),
                          (''fps'', JNumber 15),
                          (''bitrate'', JNumber 500),
                          (''mixedVideoLayout'', JNumber 1),
                          (''backgroundColor'', JString ''#000000'')])]),
                  (''recordingFileConfig'', JObject
                     [(''avFileType'', JArray [JString ''hls'', JString ''mp4''])]),
                  (''storageConfig'', storageConfig c fileNamePrefix)])]"

definition Client_StartRecording ::
  "env \<Rightarrow> Client \<Rightarrow> string \<Rightarrow> string \<Rightarrow> string \<Rightarrow> string \<Rightarrow> event list \<Rightarrow>
   (string + RecordingResult) \<times> event list" where
  "Client_StartRecording E c channelName uid token loadNumber tr =
     (if appID c = [] then (Inl ''AGORA_APP_ID is not configured'', tr)
      else if Bucket (s3Config c) = [] then
        (Inl ''AWS_S3_BUCKET_NAME is not configured for recording storage'', tr)
      else if AccessKey (s3Config c) = [] \<or> SecretKey (s3Config c) = [] then
        (Inl ''AWS credentials (AWS_ACCESS_KEY_ID, AWS_SECRET_ACCESS_KEY) are not configured for recording storage'', tr)
      else
        let fileNamePrefix = fileNamePrefix_of loadNumber in
        case makeRequest E c ''/cloud_recording/acquire'' ''POST'' (Some (acquireBody channelName uid)) tr of
          (Inl err, tr\<^sub>1) \<Rightarrow> (Inl (''acquire failed: '' @ err), tr\<^sub>1)
        | (Inr acquireResp, tr\<^sub>1) \<Rightarrow>
            (case as_string (map_of acquireResp ''resourceId'') of
               None \<Rightarrow> (Inl ''failed to get resourceId from acquire response'', tr\<^sub>1)
             | Some resourceID \<Rightarrow>
                 if resourceID = [] then (Inl ''failed to get resourceId from acquire response'', tr\<^sub>1)
                 else
                   let startEndpoint = ''/cloud_recording/resourceid/'' @ resourceID @ ''/mode/mix/start'' in
                   case makeRequest E c startEndpoint ''POST''
                          (Some (startBody c channelName uid token fileNamePrefix)) tr\<^sub>1 of
                     (Inl err, tr\<^sub>2) \<Rightarrow> (Inl (''start recording failed: '' @ err), tr\<^sub>2)
                   | (Inr startResp, tr\<^sub>2) \<Rightarrow>
                       (case as_string (map_of startResp ''sid'') of
                          None \<Rightarrow> (Inl ''failed to get sid from start response'', tr\<^sub>2)
                        | Some sid \<Rightarrow>
                            (Inr (empty_RecordingResult
                                    \<lparr>Success := True, ResourceID := resourceID, SID := sid\<rparr>), tr\<^sub>2))))"

text \<open>The part of \<open>stopRecordingWithRetry\<close> after a successful request: the file list is
  taken from the response or from its \<open>serverResponse\<close>, the first \<open>.mp4\<close> entry is preferred
  and the first entry is the fallback.\<close>

definition stop_fileList :: "(string \<times> json) list \<Rightarrow> json list" where
  "stop_fileList stopResp =
     (case as_array (map_of stopResp ''fileList'') of
        Some fl \<Rightarrow> fl
      | None \<Rightarrow>
          (case as_object (map_of stopResp ''serverResponse'') of
             Some sr \<Rightarrow> (case as_array (map_of sr ''fileList'') of Some fl \<Rightarrow> fl | None \<Rightarrow> [])
           | None \<Rightarrow> []))"

definition scan_file ::
  "string list \<times> (string \<times> json) list option \<Rightarrow> json \<Rightarrow> string list \<times> (string \<times> json) list option" where
  "scan_file acc f =
     (case acc of (names, selectedFile) \<Rightarrow>
        (case as_object (Some f) of
           Some fileInfo \<Rightarrow>
             (case as_string (map_of fileInfo ''fileName'') of
                Some fileName \<Rightarrow>
                  (names @ [fileName],
                   if HasSuffix fileName ''.mp4'' \<and> selectedFile = None then Some fileInfo else selectedFile)
              | None \<Rightarrow> (names, selectedFile))
         | None \<Rightarrow> (names, selectedFile)))"

definition stop_result :: "env \<Rightarrow> Client \<Rightarrow> (string \<times> json) list \<Rightarrow> RecordingResult" where
  "stop_result E c stopResp =
     (let result = empty_RecordingResult\<lparr>Success := True\<rparr>;
          fileList = stop_fileList stopResp
      in if length fileList > 0 then
           (case foldl scan_file ([], None) fileList of
              (names, selected) \<Rightarrow>
                let result = result\<lparr>FileList := names\<rparr>;
                    selectedFile = (if selected = None \<and> length fileList > 0
                                    then as_object (Some (hd fileList)) else selected)
                in (case selectedFile of
                      None \<Rightarrow> result
                    | Some file \<Rightarrow>
                        let result =
                              (case as_string (map_of file ''fileName'') of
                                 Some fileName \<Rightarrow>
                                   result\<lparr>FileName := fileName, S3Key := fileName,
                                          S3URL := ''https://'' @ Bucket (s3Config c) @ ''.s3.'' @
                                                   os_Getenv E ''AWS_REGION'' @ ''.amazonaws.com/'' @ fileName\<rparr>
                               | None \<Rightarrow> result);
                            result =
                              (case as_float64 (map_of file ''fileSize'') of
                                 Some fileSize \<Rightarrow> result\<lparr>FileSize := float64_to_int64 fileSize\<rparr>
                               | None \<Rightarrow> result);
                            result =
                              (case as_float64 (map_of file ''duration'') of
                                 Some duration \<Rightarrow> result\<lparr>Duration := float64_to_int64 duration\<rparr>
                               | None \<Rightarrow> result)
                        in result))
         else result)"

text \<open>
  \<open>stopRecordingWithRetry\<close>. \<open>time.Second\<close> is \<open>10^9\<close> nanoseconds; the sleep is recorded in
  the trace. The error text is tested for the two substrings exactly as in the source.
\<close>

definition Second :: int where "Second = 1000000000"

definition stopBody :: "string \<Rightarrow> string \<Rightarrow> json" where
  "stopBody channelName uid =
     JObject [(''cname'', JString channelName),
              (''uid'', JString uid),
              (''clientRequest'', JObject [])]"

definition stopEndpoint :: "string \<Rightarrow> string \<Rightarrow> string" where
  "stopEndpoint resourceID sid =
     ''/cloud_recording/resourceid/'' @ resourceID @ ''/sid/'' @ sid @ ''/mode/mix/stop''"

function stopRecordingWithRetry ::
  "env \<Rightarrow> Client \<Rightarrow> string \<Rightarrow> string \<Rightarrow> string \<Rightarrow> string \<Rightarrow> int \<Rightarrow> event list \<Rightarrow>
   (string + RecordingResult) \<times> event list" where
  "stopRecordingWithRetry E c resourceID sid uid channelName retryCount tr =
     (case makeRequest E c (stopEndpoint resourceID sid) ''POST'' (Some (stopBody channelName uid)) tr of
           (Inl err, tr\<^sub>1) \<Rightarrow>
             if Contains err ''65'' \<or> Contains err ''request not completed'' then
               if retryCount < 2 then
                 let delay = (retryCount + 1) * 3 * Second;
                     tr\<^sub>2 = tr\<^sub>1 @ [Sleep delay]
                 in stopRecordingWithRetry E c resourceID sid uid channelName (retryCount + 1) tr\<^sub>2
               else (Inl (''stop recording failed: '' @ err), tr\<^sub>1)
             else (Inl (''stop recording failed: '' @ err), tr\<^sub>1)
         | (Inr stopResp, tr\<^sub>1) \<Rightarrow> (Inr (stop_result E c stopResp), tr\<^sub>1))"
  by pat_completeness auto
termination
  by (relation "measure (\<lambda>(E, c, resourceID, sid, uid, channelName, retryCount, tr). nat (2 - retryCount))")
    auto

definition Client_StopRecording ::
  "env \<Rightarrow> Client \<Rightarrow> string \<Rightarrow> string \<Rightarrow> string \<Rightarrow> string \<Rightarrow> event list \<Rightarrow>
   (string + RecordingResult) \<times> event list" where
  "Client_StopRecording E c resourceID sid uid channelName tr =
     stopRecordingWithRetry E c resourceID sid uid channelName 0 tr"

section \<open>internal/service: the recording service\<close>

record ActiveRecording =
  active_ResourceID :: string
  active_SID :: string
  active_ChannelName :: string
  active_UID :: string
  active_LoadID :: "64 word"
  active_LoadNumber :: string

text \<open>
  The service owns the client and the map of active recordings, keyed by SID. The two
  repositories are reached through the environment. The model runs one request at a
  time; the mutex, which only serialises concurrent requests, is not represented.
\<close>

record RecordingService =
  agoraClient :: Client
  activeRecordings :: "string \<rightharpoonup> ActiveRecording"

record StartRecordingRequest =
  start_RoomID :: string
  start_ChannelName :: string
  start_UID :: string
  start_Token :: string

record StartRecordingResponse =
  started_Success :: bool
  started_ResourceID :: string
  started_SID :: string
  started_RecordingID :: string
  started_CName :: string
  started_UID :: string

record StopRecordingRequest =
  stop_ResourceID :: string
  stop_SID :: string
  stop_ChannelName :: string
  stop_UID :: string

record StopRecordingResponse =
  stopped_Success :: bool
  stopped_FileName :: string
  stopped_S3Key :: string
  stopped_S3URL :: string
  stopped_FileList :: "string list"
  stopped_FileSize :: int
  stopped_Duration :: int
  stopped_Status :: string
  stopped_Warning :: string

definition RecordingService_StartRecording ::
  "env \<Rightarrow> RecordingService \<Rightarrow> StartRecordingRequest \<Rightarrow> event list \<Rightarrow>
   (string + StartRecordingResponse) \<times> RecordingService \<times> event list" where
  "RecordingService_StartRecording E s req tr =
     (let tr\<^sub>0 = tr @ [GetByRoomID (start_RoomID req)] in
      case meetingRepo_GetByRoomID E tr (start_RoomID req) of
        Inl err \<Rightarrow> (Inl (''meeting room not found: '' @ err), s, tr\<^sub>0)
      | Inr meeting \<Rightarrow>
          let loadNumber = (if ns_Valid (meeting_LoadNumber meeting)
                            then ns_String (meeting_LoadNumber meeting) else [])
          in case Client_StartRecording E (agoraClient s) (start_ChannelName req) (start_UID req)
                    (start_Token req) loadNumber tr\<^sub>0 of
               (Inl err, tr\<^sub>1) \<Rightarrow> (Inl (''failed to start Agora recording: '' @ err), s, tr\<^sub>1)
             | (Inr result, tr\<^sub>1) \<Rightarrow>
                 let s' = s\<lparr>activeRecordings := (activeRecordings s)(SID result \<mapsto>
                            \<lparr>active_ResourceID = ResourceID result,
                             active_SID = SID result,
                             active_ChannelName = start_ChannelName req,
                             active_UID = start_UID req,
                             active_LoadID = meeting_LoadID meeting,
                             active_LoadNumber = loadNumber\<rparr>)\<rparr>
                 in (Inr \<lparr>started_Success = True,
                          started_ResourceID = ResourceID result,
                          started_SID = SID result,
                          started_RecordingID = SID result,
                          started_CName = start_ChannelName req,
                          started_UID = start_UID req\<rparr>, s', tr\<^sub>1))"

text \<open>
  \<open>StopRecording\<close>. A failed gallery write prints a warning with \<open>fmt.Printf\<close> and has no
  other effect.
\<close>

definition RecordingService_StopRecording ::
  "env \<Rightarrow> RecordingService \<Rightarrow> StopRecordingRequest \<Rightarrow> event list \<Rightarrow>
   (string + StopRecordingResponse) \<times> RecordingService \<times> event list" where
  "RecordingService_StopRecording E s req tr =
     (case activeRecordings s (stop_SID req) of
        None \<Rightarrow>
          (Inl (''recording not found for sid: '' @ stop_SID req @
                ''. Make sure the recording was started and the SID matches.''), s, tr)
      | Some recording \<Rightarrow>
          if active_ResourceID recording \<noteq> stop_ResourceID req then
            (Inl (''resourceId mismatch. Expected: '' @ active_ResourceID recording @
                  '', Got: '' @ stop_ResourceID req), s, tr)
          else if active_ChannelName recording \<noteq> stop_ChannelName req then
            (Inl (''channelName mismatch. Expected: '' @ active_ChannelName recording @
                  '', Got: '' @ stop_ChannelName req), s, tr)
          else if active_UID recording \<noteq> stop_UID req then
            (Inl (''UID mismatch. The UID used to stop recording ('' @ stop_UID req @
                  '') must match the UID used to start recording ('' @ active_UID recording @ '')''),
             s, tr)
          else
            case Client_StopRecording E (agoraClient s) (stop_ResourceID req) (stop_SID req)
                   (stop_UID req) (stop_ChannelName req) tr of
              (Inl err, tr\<^sub>1) \<Rightarrow> (Inl (''failed to stop Agora recording: '' @ err), s, tr\<^sub>1)
            | (Inr result, tr\<^sub>1) \<Rightarrow>
                let tr\<^sub>2 =
                      (if S3Key result \<noteq> [] \<and> active_LoadID recording > 0 then
                         let gallery = \<lparr>gallery_LoadID = active_LoadID recording,
                                        gallery_FileName = FileName result,
                                        gallery_S3Key = [],
                                        gallery_VideoRecordingKey = S3Key result\<rparr>
                         in case galleryRepo_Create E tr\<^sub>1 gallery of
                              Some err \<Rightarrow>
                                tr\<^sub>1 @ [GalleryCreate gallery,
                                        Printf (''Warning: Failed to save video recording to gallery: '' @
                                                err @ [CHR 0x0A])]
                            | None \<Rightarrow> tr\<^sub>1 @ [GalleryCreate gallery]
                       else tr\<^sub>1);
                    s' = s\<lparr>activeRecordings := (activeRecordings s)(stop_SID req := None)\<rparr>
                in (Inr \<lparr>stopped_Success = True,
                         stopped_FileName = FileName result,
                         stopped_S3Key = S3Key result,
                         stopped_S3URL = S3URL result,
                         stopped_FileList = FileList result,
                         stopped_FileSize = FileSize result,
                         stopped_Duration = Duration result,
                         stopped_Status = ''completed'',
                         stopped_Warning = []\<rparr>, s', tr\<^sub>2))"

section \<open>Notions used to state the properties\<close>

text \<open>An ASCII letter or digit, by enumeration.\<close>

definition letter_or_digit :: "char \<Rightarrow> bool" where
  "letter_or_digit c \<longleftrightarrow>
     c \<in> set ''abcdefghijklmnopqrstuvwxyz'' \<or> c \<in> set ''ABCDEFGHIJKLMNOPQRSTUVWXYZ'' \<or>
     c \<in> set ''0123456789''"

text \<open>The errors that \<open>stopRecordingWithRetry\<close> treats as transient, and the stop request
  it repeats.\<close>

definition transient_error :: "string \<Rightarrow> bool" where
  "transient_error err \<longleftrightarrow> Contains err ''65'' \<or> Contains err ''request not completed''"

abbreviation stop_request ::
  "env \<Rightarrow> Client \<Rightarrow> string \<Rightarrow> string \<Rightarrow> string \<Rightarrow> string \<Rightarrow> event list \<Rightarrow>
   (string + (string \<times> json) list) \<times> event list" where
  "stop_request E c resourceID sid uid channelName \<equiv>
     makeRequest E c (stopEndpoint resourceID sid) ''POST'' (Some (stopBody channelName uid))"

text \<open>What the caller of the client's \<open>StopRecording\<close> receives for the outcome of the last
  request it made.\<close>

definition stop_outcome ::
  "env \<Rightarrow> Client \<Rightarrow> string + (string \<times> json) list \<Rightarrow> string + RecordingResult" where
  "stop_outcome E c r =
     (case r of
        Inl err \<Rightarrow> Inl (''stop recording failed: '' @ err)
      | Inr stopResp \<Rightarrow> Inr (stop_result E c stopResp))"

text \<open>The time slept and the number of HTTP requests recorded in a trace.\<close>

fun sleep_of :: "event \<Rightarrow> int" where
  "sleep_of (Sleep d) = d"
| "sleep_of _ = 0"

definition total_sleep :: "event list \<Rightarrow> int" where
  "total_sleep tr = sum_list (map sleep_of tr)"

fun is_HttpDo :: "event \<Rightarrow> bool" where
  "is_HttpDo (HttpDo method url headers body) = True"
| "is_HttpDo _ = False"

definition requests_made :: "event list \<Rightarrow> nat" where
  "requests_made tr = length (filter is_HttpDo tr)"

text \<open>The local validation of a stop request against the stored record.\<close>

definition stop_validated :: "RecordingService \<Rightarrow> StopRecordingRequest \<Rightarrow> bool" where
  "stop_validated s req \<longleftrightarrow>
     (case activeRecordings s (stop_SID req) of
        None \<Rightarrow> False
      | Some recording \<Rightarrow>
          active_ResourceID recording = stop_ResourceID req \<and>
          active_ChannelName recording = stop_ChannelName req \<and>
          active_UID recording = stop_UID req)"

text \<open>
  A scripted environment for concrete runs: the transport answers the n-th request with
  the n-th entry of the script, the decoder knows the listed bodies, the meeting lookup
  and the gallery write answer as given.
\<close>

definition scripted_env ::
  "(string + http_response) list \<Rightarrow> (string \<times> (string \<times> json) list) list \<Rightarrow>
   string + MeetingRoom \<Rightarrow> string option \<Rightarrow> env" where
  "scripted_env script bodies meeting galleryErr =
     \<lparr>json_Marshal = (\<lambda>j. Inr ''{}''),
      json_Unmarshal = (\<lambda>b. case map_of bodies b of
                               Some obj \<Rightarrow> Inr obj
                             | None \<Rightarrow> Inl ''unexpected end of JSON input''),
      http_NewRequest = (\<lambda>method url. None),
      http_Do = (\<lambda>tr method url headers body.
                   if requests_made tr < length script then script ! requests_made tr
                   else Inl ''connection refused''),
      os_Getenv = (\<lambda>k. if k = ''AWS_REGION'' then ''us-west-2'' else []),
      meetingRepo_GetByRoomID = (\<lambda>tr roomID. meeting),
      galleryRepo_Create = (\<lambda>tr g. galleryErr)\<rparr>"

definition sample_client :: Client where
  "sample_client =
     \<lparr>appID = ''app'', appCertificate = ''cert'', encodedKey = ''a2V5'',
      s3Config = \<lparr>Vendor = 1, Region = 3, Bucket = ''bucket'', AccessKey = ''AK'',
                  SecretKey = ''SK'', FileNamePrefix = [''recordings'']\<rparr>\<rparr>"

definition sample_recording :: ActiveRecording where
  "sample_recording =
     \<lparr>active_ResourceID = ''res1'', active_SID = ''sid1'', active_ChannelName = ''room-42'',
      active_UID = ''7'', active_LoadID = 12, active_LoadNumber = ''LOAD-2024-01!''\<rparr>"

definition sample_service :: RecordingService where
  "sample_service = \<lparr>agoraClient = sample_client, activeRecordings = [''sid1'' \<mapsto> sample_recording]\<rparr>"

definition sample_meeting :: MeetingRoom where
  "sample_meeting =
     \<lparr>meeting_LoadID = 12, meeting_LoadNumber = \<lparr>ns_String = ''LOAD-2024-01!'', ns_Valid = True\<rparr>\<rparr>"

text \<open>Scripts: the transient error twice and then success, the transient error on every
  attempt, a permanent error, an error answer that carries only the error code 65, and a
  permanent error whose message happens to contain the digits 65.\<close>

definition busy_then_done :: env where
  "busy_then_done = scripted_env
     [Inr (Response 400 (Inr ''busy'')), Inr (Response 400 (Inr ''busy'')), Inr (Response 200 (Inr ''done''))]
     [(''busy'', [(''code'', JNumber 65), (''reason'', JString ''request not completed'')]),
      (''done'', [(''resourceId'', JString ''res1''), (''sid'', JString ''sid1''),
                  (''serverResponse'', JObject [(''fileList'', JArray
                     [JObject [(''fileName'', JString ''rec.m3u8'')],
                      JObject [(''fileName'', JString ''rec.mp4''), (''fileSize'', JNumber 1024)]])])])]
     (Inr sample_meeting) (Some ''db down'')"

definition always_busy :: env where
  "always_busy = scripted_env
     [Inr (Response 400 (Inr ''busy'')), Inr (Response 400 (Inr ''busy'')),
      Inr (Response 400 (Inr ''busy'')), Inr (Response 400 (Inr ''busy''))]
     [(''busy'', [(''code'', JNumber 65), (''reason'', JString ''request not completed'')])]
     (Inr sample_meeting) None"

definition session_gone :: env where
  "session_gone = scripted_env
     [Inr (Response 404 (Inr ''gone'')), Inr (Response 200 (Inr ''done''))]
     [(''gone'', [(''message'', JString ''no such session'')]), (''done'', [])]
     (Inr sample_meeting) None"

definition code_65_only :: env where
  "code_65_only = scripted_env
     [Inr (Response 400 (Inr ''code65'')), Inr (Response 200 (Inr ''done''))]
     [(''code65'', [(''code'', JNumber 65)]), (''done'', [])]
     (Inr sample_meeting) None"

definition uid_65_unknown :: env where
  "uid_65_unknown = scripted_env
     [Inr (Response 404 (Inr ''unknown'')), Inr (Response 404 (Inr ''unknown'')),
      Inr (Response 404 (Inr ''unknown'')), Inr (Response 404 (Inr ''unknown''))]
     [(''unknown'', [(''code'', JNumber 2), (''message'', JString ''uid 65 is not in channel'')])]
     (Inr sample_meeting) None"

abbreviation sample_stop_call :: event where
  "sample_stop_call \<equiv>
     HttpDo ''POST''
       ''https://api.agora.io/v1/apps/app/cloud_recording/resourceid/res1/sid/sid1/mode/mix/stop''
       [(''Authorization'', ''Basic a2V5''), (''Content-Type'', ''application/json'')] (Some ''{}'')"

text \<open>Further scripts and sample requests for concrete runs.\<close>

definition sid_1265_missing :: env where
  "sid_1265_missing = scripted_env
     [Inr (Response 404 (Inr ''gone'')), Inr (Response 404 (Inr ''gone'')), Inr (Response 404 (Inr ''gone''))]
     [(''gone'', [(''message'', JString ''sid 1265 not found'')])]
     (Inr sample_meeting) None"

definition start_accepted :: env where
  "start_accepted = scripted_env
     [Inr (Response 200 (Inr ''acquired'')), Inr (Response 200 (Inr ''started''))]
     [(''acquired'', [(''resourceId'', JString ''res1'')]),
      (''started'', [(''resourceId'', JString ''res1''), (''sid'', JString ''sid1'')])]
     (Inr sample_meeting) None"

definition start_refused :: env where
  "start_refused = scripted_env
     [Inr (Response 200 (Inr ''acquired'')), Inr (Response 400 (Inr ''refused''))]
     [(''acquired'', [(''resourceId'', JString ''res1'')]),
      (''refused'', [(''message'', JString ''invalid token'')])]
     (Inr sample_meeting) None"

definition idle_service :: RecordingService where
  "idle_service = \<lparr>agoraClient = sample_client, activeRecordings = Map.empty\<rparr>"

definition sample_start :: StartRecordingRequest where
  "sample_start =
     \<lparr>start_RoomID = ''load_12_ab12cd34ef56'', start_ChannelName = ''room-42'', start_UID = ''7'',
      start_Token = ''006app''\<rparr>"

definition sample_stop :: StopRecordingRequest where
  "sample_stop =
     \<lparr>stop_ResourceID = ''res1'', stop_SID = ''sid1'', stop_ChannelName = ''room-42'', stop_UID = ''7''\<rparr>"


abbreviation sample_acquire_call :: event where
  "sample_acquire_call \<equiv>
     HttpDo ''POST'' ''https://api.agora.io/v1/apps/app/cloud_recording/acquire''
       [(''Authorization'', ''Basic a2V5''), (''Content-Type'', ''application/json'')] (Some ''{}'')"

abbreviation sample_start_call :: event where
  "sample_start_call \<equiv>
     HttpDo ''POST'' ''https://api.agora.io/v1/apps/app/cloud_recording/resourceid/res1/mode/mix/start''
       [(''Authorization'', ''Basic a2V5''), (''Content-Type'', ''application/json'')] (Some ''{}'')"

section \<open>Token signing: proofs\<close>

lemma u8_of_char_of: "of_char (char_of (unat (w::byte))) = w"
proof -
  have lt: "unat w < 256" using unsigned_less[of w, where 'a=nat] by simp
  have "(of_char (char_of (unat w)) :: byte) = of_nat (of_char (char_of (unat w)) :: nat)"
    by (simp only: of_nat_of_char)
  also have "\<dots> = of_nat (unat w mod 256)" by (simp only: of_char_of)
  also have "\<dots> = w" using lt by simp
  finally show ?thesis .
qed

lemma bytes_of_string_of_bytes: "bytes_of_string (string_of_bytes b) = b"
  by (simp add: bytes_of_string_def string_of_bytes_def map_idI u8_of_char_of)

lemma bytes_of_string_append: "bytes_of_string (a @ b) = bytes_of_string a @ bytes_of_string b"
  by (simp add: bytes_of_string_def)

lemma collect_keys: "foldl (\<lambda>ks k. ks @ [k]) acc xs = acc @ xs"
  by (induction xs arbitrary: acc) simp_all

lemma sort_range_order: "range_order iter m \<Longrightarrow> sort (iter m) = sorted_list_of_set (dom m)"
  by (metis range_order_def sorted_list_of_set_sort_remdups distinct_remdups_id)

lemma little_endian_4:
  "little_endian 4 v = [of_nat (v mod 256), of_nat (v div 256 mod 256),
     of_nat (v div 256 div 256 mod 256), of_nat (v div 256 div 256 div 256 mod 256)]"
proof -
  have "(4::nat) = Suc (Suc (Suc (Suc 0)))" by simp
  then show ?thesis by (simp only: little_endian.simps)
qed

lemma little_endian_2: "little_endian 2 v = [of_nat (v mod 256), of_nat (v div 256 mod 256)]"
proof -
  have "(2::nat) = Suc (Suc 0)" by simp
  then show ?thesis by (simp only: little_endian.simps)
qed

lemma packUint32ToBuf_le: "packUint32ToBuf buf v = buf @ little_endian 4 (unat v)"
  unfolding packUint32ToBuf_def little_endian_4
  by (simp add: word_unat_eq_iff unsigned_ucast_eq unat_drop_bit_eq unat_of_nat
      take_bit_eq_mod drop_bit_eq_div unat_div div_mult2_eq[symmetric])

lemma packUint16ToBuf_le: "packUint16ToBuf buf v = buf @ little_endian 2 (unat v)"
  unfolding packUint16ToBuf_def little_endian_2
  by (simp add: word_unat_eq_iff unsigned_ucast_eq unat_drop_bit_eq unat_of_nat
      take_bit_eq_mod drop_bit_eq_div unat_div)

lemma packBytesToBuf_le: "packBytesToBuf buf val = buf @ length_prefixed val"
  by (simp add: packBytesToBuf_def packUint16ToBuf_le length_prefixed_def unat_of_nat)

lemma pack_entries:
  "set ks \<subseteq> dom m \<Longrightarrow>
   foldl (\<lambda>b k. packUint32ToBuf (packUint16ToBuf b k) (index_map m k)) buf ks =
   buf @ concat (map (privilege_entry m) ks)"
proof (induction ks arbitrary: buf)
  case Nil
  then show ?case by simp
next
  case (Cons k ks)
  from Cons.prems obtain v where v: "m k = Some v" by auto
  from Cons.prems have sub: "set ks \<subseteq> dom m" by simp
  have step: "packUint32ToBuf (packUint16ToBuf buf k) (index_map m k) = buf @ privilege_entry m k"
    by (simp add: v index_map_def privilege_entry_def packUint32ToBuf_le packUint16ToBuf_le)
  show ?case
    using Cons.IH[OF sub, of "buf @ privilege_entry m k"] by (simp add: step)
qed

lemma packMapUint32ToBuf_section:
  assumes "range_order iter m"
  shows "packMapUint32ToBuf iter buf m = buf @ privilege_section m"
proof -
  have sub: "set (sorted_list_of_set (dom m)) \<subseteq> dom m" by simp
  have count: "packUint16ToBuf buf (of_nat (card (dom m))) =
      buf @ little_endian 2 (card (dom m) mod 65536)"
    by (simp add: packUint16ToBuf_le unat_of_nat)
  show ?thesis
    unfolding packMapUint32ToBuf_def Let_def collect_keys
    by (simp add: sort_range_order[OF assms] count pack_entries[OF sub] privilege_section_def)
qed

lemma packMessage_inner:
  "range_order iter (Message t) \<Longrightarrow>
   packMessage iter t = inner_message (Salt t) (Ts t) (Message t)"
  by (simp add: packMessage_def Let_def packMapUint32ToBuf_section packUint32ToBuf_le inner_message_def)

lemma Build_wire:
  "range_order iter (Message t) \<Longrightarrow>
   Build L iter t =
     Inr (''006'' @ AppID t @ base64_EncodeToString L
       (outer_content L (AppID t) (AppCertificate t) (ChannelName t) (UID t)
          (inner_message (Salt t) (Ts t) (Message t))))"
  by (simp add: Build_def Let_def packMessage_inner hmacSign_def packContent_def
      packBytesToBuf_le packUint32ToBuf_le outer_content_def bytes_of_string_append
      bytes_of_string_of_bytes)

lemma rtc_token_eq:
  "app \<noteq> [] \<Longrightarrow> cert \<noteq> [] \<Longrightarrow>
   GenerateRTCToken L iter now\<^sub>1 rnd now\<^sub>2 app cert channelName uid role expireSeconds =
   Build L iter ((NewAccessToken L now\<^sub>1 rnd app cert channelName uid)
                   \<lparr>Message := granted role (ucast now\<^sub>2 + expireSeconds)\<rparr>)"
  by (simp add: GenerateRTCToken_def Let_def AddPrivilege_def granted_def NewAccessToken_def)

text \<open>
  Claim C1. With a non-empty application identity and certificate, \<open>GenerateRTCToken\<close>
  returns \<open>"006"\<close>, then the application identity, then the base64 encoding of the outer
  content: the length-prefixed HMAC over identity, channel, user and inner message
  concatenated without delimiters, the two little-endian CRCs, and the length-prefixed
  inner message, which is salt, the first clock reading plus 24 hours, the entry count
  and the (code, expiry) pairs in ascending order of code. The only assumption on the
  runtime is that ranging over the privilege map visits each key once, in any order.
\<close>

theorem GenerateRTCToken_wire_format:
  assumes "app \<noteq> []" and "cert \<noteq> []"
    and "range_order iter (granted role (ucast now\<^sub>2 + expireSeconds))"
  shows "GenerateRTCToken L iter now\<^sub>1 rnd now\<^sub>2 app cert channelName uid role expireSeconds =
     Inr (''006'' @ app @ base64_EncodeToString L
       (outer_content L app cert channelName uid
          (inner_message rnd (ucast now\<^sub>1 + 86400) (granted role (ucast now\<^sub>2 + expireSeconds)))))"
  using assms
  by (simp add: rtc_token_eq Build_wire) (simp add: NewAccessToken_def Let_def)

lemma granted_publisher_dom: "dom (granted RolePublisher e) = {1, 2, 3, 4}"
  by (auto simp: granted_def PrivilegeJoinChannel_def PrivilegePublishAudioStream_def
      PrivilegePublishVideoStream_def PrivilegePublishDataStream_def)

lemma sorted_privilege_codes: "sorted_list_of_set {1, 2, 3, 4 :: uint16} = [1, 2, 3, 4]"
  by code_simp

lemma sample_inner_message:
  "inner_message 7 (ucast (1700000000 :: int64) + 86400)
     (granted RolePublisher (ucast (1700000000 :: int64) + 3600)) =
   [7, 0, 0, 0, 0x80, 0x42, 0x55, 0x65, 4, 0,
    1, 0, 0x10, 0xFF, 0x53, 0x65, 2, 0, 0x10, 0xFF, 0x53, 0x65,
    3, 0, 0x10, 0xFF, 0x53, 0x65, 4, 0, 0x10, 0xFF, 0x53, 0x65]"
  apply (simp add: inner_message_def privilege_section_def granted_publisher_dom sorted_privilege_codes
      little_endian_4 little_endian_2 privilege_entry_def)
  apply (simp add: granted_def RolePublisher_def PrivilegeJoinChannel_def PrivilegePublishAudioStream_def
      PrivilegePublishVideoStream_def PrivilegePublishDataStream_def)
  done

theorem GenerateRTCToken_wire_format_witness:
  "''app'' \<noteq> [] \<and> ''cert'' \<noteq> [] \<and>
   range_order (\<lambda>m. [3, 1, 4, 2]) (granted RolePublisher (ucast (1700000000 :: int64) + 3600)) \<and>
   GenerateRTCToken sample_stdlib (\<lambda>m. [3, 1, 4, 2]) 1700000000 7 1700000000
       ''app'' ''cert'' ''room-42'' ''7'' RolePublisher 3600 =
     Inr (''006'' @ ''app'' @ base64_EncodeToString sample_stdlib
       (outer_content sample_stdlib ''app'' ''cert'' ''room-42'' ''7''
          [7, 0, 0, 0, 0x80, 0x42, 0x55, 0x65, 4, 0,
           1, 0, 0x10, 0xFF, 0x53, 0x65, 2, 0, 0x10, 0xFF, 0x53, 0x65,
           3, 0, 0x10, 0xFF, 0x53, 0x65, 4, 0, 0x10, 0xFF, 0x53, 0x65]))"
proof -
  have r: "range_order (\<lambda>m. [3, 1, 4, 2])
      (granted RolePublisher (ucast (1700000000 :: int64) + 3600))"
    by (simp add: range_order_def granted_publisher_dom) auto
  have eq: "GenerateRTCToken sample_stdlib (\<lambda>m. [3, 1, 4, 2]) 1700000000 7 1700000000
       ''app'' ''cert'' ''room-42'' ''7'' RolePublisher 3600 =
     Inr (''006'' @ ''app'' @ base64_EncodeToString sample_stdlib
       (outer_content sample_stdlib ''app'' ''cert'' ''room-42'' ''7''
          (inner_message 7 (ucast (1700000000 :: int64) + 86400)
             (granted RolePublisher (ucast (1700000000 :: int64) + 3600)))))"
    by (rule GenerateRTCToken_wire_format[OF _ _ r]) simp_all
  show ?thesis
    using r eq unfolding sample_inner_message by simp
qed

lemma AddPrivileges_Message:
  "AddPrivileges t ps = t\<lparr>Message := Message t ++ map_of (rev ps)\<rparr>"
proof (induction ps rule: rev_induct)
  case Nil
  show ?case by simp
next
  case (snoc x xs)
  obtain p e where x: "x = (p, e)" by (cases x)
  have m: "Message t ++ map_of (rev (xs @ [(p, e)])) = (Message t ++ map_of (rev xs))(p \<mapsto> e)"
    by (simp only: rev_append rev.simps append_Nil append_Cons map_of.simps fst_conv snd_conv map_add_upd)
  have "AddPrivileges t (xs @ [(p, e)]) = AddPrivilege (AddPrivileges t xs) p e"
    by simp
  also have "\<dots> = AddPrivilege (t\<lparr>Message := Message t ++ map_of (rev xs)\<rparr>) p e"
    by (simp only: snoc.IH)
  also have "\<dots> = t\<lparr>Message := (Message t ++ map_of (rev xs))(p \<mapsto> e)\<rparr>"
    by (simp add: AddPrivilege_def)
  finally show ?case
    unfolding x m .
qed

lemma map_of_permutation:
  assumes "distinct (map fst ps)" and "mset qs = mset ps"
  shows "map_of (rev qs) = map_of (rev ps)"
proof -
  have "mset (map fst qs) = mset (map fst ps)" using assms(2) by (metis mset_map)
  then have "distinct (map fst qs)" using assms(1) by (metis mset_eq_imp_distinct_iff)
  moreover have "set qs = set ps" using assms(2) by (metis mset_eq_setD)
  ultimately show ?thesis
    using assms(1) by (simp add: map_of_inject_set rev_map[symmetric])
qed

lemma AddPrivileges_permutation:
  "distinct (map fst ps) \<Longrightarrow> mset qs = mset ps \<Longrightarrow> AddPrivileges t qs = AddPrivileges t ps"
proof -
  assume "distinct (map fst ps)" and "mset qs = mset ps"
  then have "map_of (rev qs) = map_of (rev ps)" by (rule map_of_permutation)
  then show ?thesis
    unfolding AddPrivileges_Message by (rule arg_cong)
qed

lemma Build_packMessage:
  "packMessage iter t = packMessage iter' t \<Longrightarrow> Build L iter t = Build L iter' t"
  by (simp add: Build_def)

text \<open>
  Claim C5. For a fixed token state (salt and timestamp included) the encoding does not
  depend on the order in which the runtime ranges over the privilege map, nor on the order
  in which privileges with distinct codes were added: the privilege map is written as its
  uint16 count followed by the entries in ascending order of code, so the packed message,
  the signature and the token string are byte-identical.
\<close>

theorem Build_deterministic:
  assumes "distinct (map fst ps)" and "mset qs = mset ps"
    and "range_order iter (Message (AddPrivileges t ps))"
    and "range_order iter' (Message (AddPrivileges t qs))"
  shows "packMapUint32ToBuf iter buf (Message (AddPrivileges t ps)) =
           buf @ privilege_section (Message (AddPrivileges t ps)) \<and>
         packMapUint32ToBuf iter' buf (Message (AddPrivileges t qs)) =
           packMapUint32ToBuf iter buf (Message (AddPrivileges t ps)) \<and>
         packMessage iter' (AddPrivileges t qs) = packMessage iter (AddPrivileges t ps) \<and>
         hmacSign L (AppCertificate (AddPrivileges t qs))
             (AppID (AddPrivileges t qs) @ ChannelName (AddPrivileges t qs) @ UID (AddPrivileges t qs) @
              string_of_bytes (packMessage iter' (AddPrivileges t qs))) =
           hmacSign L (AppCertificate (AddPrivileges t ps))
             (AppID (AddPrivileges t ps) @ ChannelName (AddPrivileges t ps) @ UID (AddPrivileges t ps) @
              string_of_bytes (packMessage iter (AddPrivileges t ps))) \<and>
         Build L iter' (AddPrivileges t qs) = Build L iter (AddPrivileges t ps)"
proof -
  have eq: "AddPrivileges t qs = AddPrivileges t ps"
    using assms(1,2) by (rule AddPrivileges_permutation)
  have r': "range_order iter' (Message (AddPrivileges t ps))"
    using assms(4) by (simp only: eq)
  have m: "packMessage iter' (AddPrivileges t ps) = packMessage iter (AddPrivileges t ps)"
    by (simp only: packMessage_inner[OF assms(3)] packMessage_inner[OF r'])
  show ?thesis
    by (simp only: eq m packMapUint32ToBuf_section[OF assms(3)] packMapUint32ToBuf_section[OF r']
        Build_packMessage[OF m])
qed

theorem Build_deterministic_witness:
  "distinct (map fst [(1 :: uint16, 10 :: uint32), (2, 20)]) \<and>
   mset [(2 :: uint16, 20 :: uint32), (1, 10)] = mset [(1, 10), (2, 20)] \<and>
   range_order (\<lambda>m. [1, 2])
     (Message (AddPrivileges (NewAccessToken sample_stdlib 0 7 ''app'' ''cert'' ''room'' ''7'') [(1, 10), (2, 20)])) \<and>
   range_order (\<lambda>m. [2, 1])
     (Message (AddPrivileges (NewAccessToken sample_stdlib 0 7 ''app'' ''cert'' ''room'' ''7'') [(2, 20), (1, 10)])) \<and>
   Build sample_stdlib (\<lambda>m. [2, 1])
     (AddPrivileges (NewAccessToken sample_stdlib 0 7 ''app'' ''cert'' ''room'' ''7'') [(2, 20), (1, 10)]) =
   Build sample_stdlib (\<lambda>m. [1, 2])
     (AddPrivileges (NewAccessToken sample_stdlib 0 7 ''app'' ''cert'' ''room'' ''7'') [(1, 10), (2, 20)])"
proof -
  have d: "distinct (map fst [(1 :: uint16, 10 :: uint32), (2, 20)])" by simp
  have p: "mset [(2 :: uint16, 20 :: uint32), (1, 10)] = mset [(1, 10), (2, 20)]" by simp
  have r1: "range_order (\<lambda>m. [1, 2])
     (Message (AddPrivileges (NewAccessToken sample_stdlib 0 7 ''app'' ''cert'' ''room'' ''7'') [(1, 10), (2, 20)]))"
    by (auto simp: range_order_def AddPrivilege_def NewAccessToken_def)
  have r2: "range_order (\<lambda>m. [2, 1])
     (Message (AddPrivileges (NewAccessToken sample_stdlib 0 7 ''app'' ''cert'' ''room'' ''7'') [(2, 20), (1, 10)]))"
    by (auto simp: range_order_def AddPrivilege_def NewAccessToken_def)
  show ?thesis
    using d p r1 r2 Build_deterministic[OF d p r1 r2, of "[]" sample_stdlib] by simp
qed

text \<open>
  Claim C6. \<open>GenerateRTCToken\<close> returns an error exactly when the application identity or
  the certificate is empty, and a token in every other case, whatever the channel name and
  user identity are.
\<close>

theorem GenerateRTCToken_errors:
  "((\<exists>err. GenerateRTCToken L iter now\<^sub>1 rnd now\<^sub>2 app cert channelName uid role expireSeconds = Inl err)
      \<longleftrightarrow> app = [] \<or> cert = []) \<and>
   ((\<exists>tok. GenerateRTCToken L iter now\<^sub>1 rnd now\<^sub>2 app cert channelName uid role expireSeconds = Inr tok)
      \<longleftrightarrow> app \<noteq> [] \<and> cert \<noteq> []) \<and>
   (app = [] \<longrightarrow>
      GenerateRTCToken L iter now\<^sub>1 rnd now\<^sub>2 app cert channelName uid role expireSeconds =
        Inl ''appID is required'') \<and>
   (app \<noteq> [] \<and> cert = [] \<longrightarrow>
      GenerateRTCToken L iter now\<^sub>1 rnd now\<^sub>2 app cert channelName uid role expireSeconds =
        Inl ''appCertificate is required'')"
  by (auto simp: GenerateRTCToken_def Build_def Let_def)

theorem GenerateRTCToken_errors_witness:
  "GenerateRTCToken sample_stdlib (\<lambda>m. [1]) 0 7 0 '''' ''cert'' ''room'' ''7'' RoleSubscriber 60 =
     Inl ''appID is required'' \<and>
   GenerateRTCToken sample_stdlib (\<lambda>m. [1]) 0 7 0 ''app'' '''' ''room'' ''7'' RoleSubscriber 60 =
     Inl ''appCertificate is required'' \<and>
   (\<exists>tok. GenerateRTCToken sample_stdlib (\<lambda>m. [1]) 0 7 0 ''app'' ''cert'' '''' '''' RoleSubscriber 60 = Inr tok)"
  using GenerateRTCToken_errors[of sample_stdlib "\<lambda>m. [1]" 0 7 0 "''''" "''cert''" "''room''" "''7''" RoleSubscriber 60]
    GenerateRTCToken_errors[of sample_stdlib "\<lambda>m. [1]" 0 7 0 "''app''" "''''" "''room''" "''7''" RoleSubscriber 60]
    GenerateRTCToken_errors[of sample_stdlib "\<lambda>m. [1]" 0 7 0 "''app''" "''cert''" "''''" "''''" RoleSubscriber 60]
  by simp

lemma granted_other_dom: "role \<noteq> RolePublisher \<Longrightarrow> dom (granted role e) = {1}"
  by (auto simp: granted_def PrivilegeJoinChannel_def)

lemma privilege_section_granted:
  "privilege_section (granted role e) =
     (if role = RolePublisher
      then [4, 0] @ [1, 0] @ little_endian 4 (unat e) @ [2, 0] @ little_endian 4 (unat e) @
           [3, 0] @ little_endian 4 (unat e) @ [4, 0] @ little_endian 4 (unat e)
      else [1, 0] @ [1, 0] @ little_endian 4 (unat e))"
proof (cases "role = RolePublisher")
  case True
  have v: "the (granted RolePublisher e k) = e" if "k \<in> {1, 2, 3, 4}" for k
    using that by (auto simp: granted_def PrivilegeJoinChannel_def PrivilegePublishAudioStream_def
        PrivilegePublishVideoStream_def PrivilegePublishDataStream_def)
  show ?thesis
    unfolding True
    by (simp add: privilege_section_def granted_publisher_dom sorted_privilege_codes
        privilege_entry_def v little_endian_2)
next
  case False
  have v: "the (granted role e 1) = e"
    using False by (simp add: granted_def PrivilegeJoinChannel_def)
  show ?thesis
    using False
    by (simp add: privilege_section_def granted_other_dom privilege_entry_def v little_endian_2)
qed

text \<open>
  Claim C8. The token string that \<open>GenerateRTCToken\<close> returns carries, in the privilege
  section of its signed inner message, exactly one entry for any role other than publisher:
  the join-channel code 1 with the expiry of the second clock reading plus the validity.
  For the publisher role it carries exactly four entries, the codes 1 to 4 (join, publish
  audio, publish video, publish data), each with that same expiry. This is the content of
  the token state handed to \<open>Build\<close>.
\<close>

theorem GenerateRTCToken_privileges:
  assumes "app \<noteq> []" and "cert \<noteq> []"
    and "range_order iter (granted role (ucast now\<^sub>2 + expireSeconds))"
  shows "GenerateRTCToken L iter now\<^sub>1 rnd now\<^sub>2 app cert channelName uid role expireSeconds =
     Inr (''006'' @ app @ base64_EncodeToString L
       (outer_content L app cert channelName uid
          (little_endian 4 (unat rnd) @
           little_endian 4 (unat (ucast now\<^sub>1 + 86400 :: uint32)) @
           (if role = RolePublisher
            then [4, 0] @
                 [1, 0] @ little_endian 4 (unat (ucast now\<^sub>2 + expireSeconds :: uint32)) @
                 [2, 0] @ little_endian 4 (unat (ucast now\<^sub>2 + expireSeconds :: uint32)) @
                 [3, 0] @ little_endian 4 (unat (ucast now\<^sub>2 + expireSeconds :: uint32)) @
                 [4, 0] @ little_endian 4 (unat (ucast now\<^sub>2 + expireSeconds :: uint32))
            else [1, 0] @
                 [1, 0] @ little_endian 4 (unat (ucast now\<^sub>2 + expireSeconds :: uint32)))))) \<and>
   GenerateRTCToken L iter now\<^sub>1 rnd now\<^sub>2 app cert channelName uid role expireSeconds =
     Build L iter ((NewAccessToken L now\<^sub>1 rnd app cert channelName uid)
       \<lparr>Message :=
          (if role = RolePublisher
           then [PrivilegeJoinChannel \<mapsto> ucast now\<^sub>2 + expireSeconds,
                 PrivilegePublishAudioStream \<mapsto> ucast now\<^sub>2 + expireSeconds,
                 PrivilegePublishVideoStream \<mapsto> ucast now\<^sub>2 + expireSeconds,
                 PrivilegePublishDataStream \<mapsto> ucast now\<^sub>2 + expireSeconds]
           else [PrivilegeJoinChannel \<mapsto> ucast now\<^sub>2 + expireSeconds])\<rparr>)"
proof
  have "GenerateRTCToken L iter now\<^sub>1 rnd now\<^sub>2 app cert channelName uid role expireSeconds =
     Inr (''006'' @ app @ base64_EncodeToString L
       (outer_content L app cert channelName uid
          (inner_message rnd (ucast now\<^sub>1 + 86400) (granted role (ucast now\<^sub>2 + expireSeconds)))))"
    using assms by (simp add: rtc_token_eq Build_wire) (simp add: NewAccessToken_def Let_def)
  then show "GenerateRTCToken L iter now\<^sub>1 rnd now\<^sub>2 app cert channelName uid role expireSeconds =
     Inr (''006'' @ app @ base64_EncodeToString L
       (outer_content L app cert channelName uid
          (little_endian 4 (unat rnd) @
           little_endian 4 (unat (ucast now\<^sub>1 + 86400 :: uint32)) @
           (if role = RolePublisher
            then [4, 0] @
                 [1, 0] @ little_endian 4 (unat (ucast now\<^sub>2 + expireSeconds :: uint32)) @
                 [2, 0] @ little_endian 4 (unat (ucast now\<^sub>2 + expireSeconds :: uint32)) @
                 [3, 0] @ little_endian 4 (unat (ucast now\<^sub>2 + expireSeconds :: uint32)) @
                 [4, 0] @ little_endian 4 (unat (ucast now\<^sub>2 + expireSeconds :: uint32))
            else [1, 0] @
                 [1, 0] @ little_endian 4 (unat (ucast now\<^sub>2 + expireSeconds :: uint32))))))"
    by (simp only: inner_message_def privilege_section_granted)
next
  show "GenerateRTCToken L iter now\<^sub>1 rnd now\<^sub>2 app cert channelName uid role expireSeconds =
     Build L iter ((NewAccessToken L now\<^sub>1 rnd app cert channelName uid)
       \<lparr>Message :=
          (if role = RolePublisher
           then [PrivilegeJoinChannel \<mapsto> ucast now\<^sub>2 + expireSeconds,
                 PrivilegePublishAudioStream \<mapsto> ucast now\<^sub>2 + expireSeconds,
                 PrivilegePublishVideoStream \<mapsto> ucast now\<^sub>2 + expireSeconds,
                 PrivilegePublishDataStream \<mapsto> ucast now\<^sub>2 + expireSeconds]
           else [PrivilegeJoinChannel \<mapsto> ucast now\<^sub>2 + expireSeconds])\<rparr>)"
    using assms by (simp add: rtc_token_eq granted_def)
qed

theorem GenerateRTCToken_privileges_witness:
  "''app'' \<noteq> [] \<and> ''cert'' \<noteq> [] \<and>
   range_order (\<lambda>m. [1]) (granted RoleSubscriber (ucast (1700000005 :: int64) + 3600)) \<and>
   range_order (\<lambda>m. [4, 3, 2, 1]) (granted RolePublisher (ucast (1700000005 :: int64) + 3600)) \<and>
   GenerateRTCToken sample_stdlib (\<lambda>m. [1]) 1700000000 7 1700000005 ''app'' ''cert'' ''room-42'' ''7''
       RoleSubscriber 3600 =
     Inr (''006'' @ ''app'' @ base64_EncodeToString sample_stdlib
       (outer_content sample_stdlib ''app'' ''cert'' ''room-42'' ''7''
          [7, 0, 0, 0, 0x80, 0x42, 0x55, 0x65, 1, 0,
           1, 0, 0x15, 0xFF, 0x53, 0x65])) \<and>
   GenerateRTCToken sample_stdlib (\<lambda>m. [4, 3, 2, 1]) 1700000000 7 1700000005 ''app'' ''cert'' ''room-42'' ''7''
       RolePublisher 3600 =
     Inr (''006'' @ ''app'' @ base64_EncodeToString sample_stdlib
       (outer_content sample_stdlib ''app'' ''cert'' ''room-42'' ''7''
          [7, 0, 0, 0, 0x80, 0x42, 0x55, 0x65, 4, 0,
           1, 0, 0x15, 0xFF, 0x53, 0x65, 2, 0, 0x15, 0xFF, 0x53, 0x65,
           3, 0, 0x15, 0xFF, 0x53, 0x65, 4, 0, 0x15, 0xFF, 0x53, 0x65]))"
proof -
  have r1: "range_order (\<lambda>m. [1]) (granted RoleSubscriber (ucast (1700000005 :: int64) + 3600))"
    by (simp add: range_order_def granted_other_dom RoleSubscriber_def RolePublisher_def)
  have r2: "range_order (\<lambda>m. [4, 3, 2, 1]) (granted RolePublisher (ucast (1700000005 :: int64) + 3600))"
    by (simp add: range_order_def granted_publisher_dom) auto
  have np: "RoleSubscriber \<noteq> RolePublisher"
    by (simp add: RoleSubscriber_def RolePublisher_def)
  show ?thesis
    using r1 r2
      GenerateRTCToken_privileges[where app = "''app''" and cert = "''cert''" and L = sample_stdlib
        and iter = "\<lambda>m. [1]" and now\<^sub>1 = 1700000000 and rnd = 7 and now\<^sub>2 = 1700000005
        and channelName = "''room-42''" and uid = "''7''" and role = RoleSubscriber
        and expireSeconds = 3600, THEN conjunct1]
      GenerateRTCToken_privileges[where app = "''app''" and cert = "''cert''" and L = sample_stdlib
        and iter = "\<lambda>m. [4, 3, 2, 1]" and now\<^sub>1 = 1700000000 and rnd = 7 and now\<^sub>2 = 1700000005
        and channelName = "''room-42''" and uid = "''7''" and role = RolePublisher
        and expireSeconds = 3600, THEN conjunct1]
    by (simp add: np little_endian_4)
qed

section \<open>Stopping with retry: proofs\<close>

declare stopRecordingWithRetry.simps [simp del]

lemma Contains_iff: "Contains s substr \<longleftrightarrow> (\<exists>p q. s = p @ substr @ q)"
proof (induction s)
  case Nil
  show ?case by auto
next
  case (Cons c s)
  show ?case
  proof
    assume "Contains (c # s) substr"
    then consider "prefix substr (c # s)" | "Contains s substr" by auto
    then show "\<exists>p q. c # s = p @ substr @ q"
    proof cases
      case 1
      then obtain q where "c # s = substr @ q" by (auto simp: prefix_def)
      then have "c # s = [] @ substr @ q" by simp
      then show ?thesis by blast
    next
      case 2
      then obtain p q where "s = p @ substr @ q" using Cons.IH by auto
      then have "c # s = (c # p) @ substr @ q" by simp
      then show ?thesis by blast
    qed
  next
    assume "\<exists>p q. c # s = p @ substr @ q"
    then obtain p q where pq: "c # s = p @ substr @ q" by auto
    show "Contains (c # s) substr"
    proof (cases p)
      case Nil
      with pq have "prefix substr (c # s)" by (simp add: prefix_def)
      then show ?thesis by simp
    next
      case (Cons a p')
      with pq have "s = p' @ substr @ q" by simp
      then have "Contains s substr" using Cons.IH by blast
      then show ?thesis by simp
    qed
  qed
qed

lemma makeRequest_trace:
  assumes "makeRequest E c endpoint method body tr = (r, tr')"
  shows "tr' = tr \<or> (\<exists>url headers reqBody. tr' = tr @ [HttpDo method url headers reqBody])"
  using assms
  by (auto simp: makeRequest_def Let_def split: if_splits sum.splits option.splits http_response.splits)

lemma makeRequest_total_sleep:
  "makeRequest E c endpoint method body tr = (r, tr') \<Longrightarrow> total_sleep tr' = total_sleep tr"
  by (drule makeRequest_trace) (auto simp: total_sleep_def)

lemma makeRequest_requests_made:
  "makeRequest E c endpoint method body tr = (r, tr') \<Longrightarrow> requests_made tr' \<le> Suc (requests_made tr)"
  by (drule makeRequest_trace) (auto simp: requests_made_def)

lemma stop_result_Success: "Success (stop_result E c stopResp)"
  by (simp add: stop_result_def Let_def empty_RecordingResult_def split: prod.splits option.splits)

lemma stopRecordingWithRetry_step:
  assumes "stop_request E c resourceID sid uid channelName tr = (r, tr\<^sub>1)"
  shows "stopRecordingWithRetry E c resourceID sid uid channelName retryCount tr =
     (case r of
        Inl err \<Rightarrow>
          if transient_error err \<and> retryCount < 2
          then stopRecordingWithRetry E c resourceID sid uid channelName (retryCount + 1)
                 (tr\<^sub>1 @ [Sleep ((retryCount + 1) * 3 * Second)])
          else (Inl (''stop recording failed: '' @ err), tr\<^sub>1)
      | Inr stopResp \<Rightarrow> (Inr (stop_result E c stopResp), tr\<^sub>1))"
  by (subst stopRecordingWithRetry.simps) (simp add: assms transient_error_def Let_def split: sum.splits)

lemma stopRecordingWithRetry_last:
  assumes "stop_request E c resourceID sid uid channelName tr = (r, tr\<^sub>1)"
  shows "stopRecordingWithRetry E c resourceID sid uid channelName 2 tr = (stop_outcome E c r, tr\<^sub>1)"
  by (simp add: stopRecordingWithRetry_step[OF assms] stop_outcome_def split: sum.splits)

lemma stopRecordingWithRetry_final:
  assumes "stop_request E c resourceID sid uid channelName tr = (r, tr\<^sub>1)"
    and "\<forall>err. r = Inl err \<longrightarrow> \<not> transient_error err"
  shows "stopRecordingWithRetry E c resourceID sid uid channelName retryCount tr = (stop_outcome E c r, tr\<^sub>1)"
  using assms(2) by (simp add: stopRecordingWithRetry_step[OF assms(1)] stop_outcome_def split: sum.splits)

text \<open>
  The retry schedule, relative to the test that the code applies to the error text: an
  outcome that does not pass the test ends the call at once; an error that passes it is
  followed by a sleep of 3 seconds and a second request, then by a sleep of 6 seconds and a
  third request, whose outcome is final whatever it is.
\<close>

lemma stop_retry_schedule:
  "(\<forall>stopResp. \<exists>result. stop_outcome E c (Inr stopResp) = Inr result \<and> Success result) \<and>
   (\<forall>err. stop_outcome E c (Inl err) = Inl (''stop recording failed: '' @ err)) \<and>
   (\<forall>r\<^sub>1 tr\<^sub>1.
      stop_request E c resourceID sid uid channelName tr = (r\<^sub>1, tr\<^sub>1) \<and>
      (\<forall>err. r\<^sub>1 = Inl err \<longrightarrow> \<not> transient_error err) \<longrightarrow>
      Client_StopRecording E c resourceID sid uid channelName tr = (stop_outcome E c r\<^sub>1, tr\<^sub>1)) \<and>
   (\<forall>e\<^sub>1 tr\<^sub>1 r\<^sub>2 tr\<^sub>2.
      stop_request E c resourceID sid uid channelName tr = (Inl e\<^sub>1, tr\<^sub>1) \<and> transient_error e\<^sub>1 \<and>
      stop_request E c resourceID sid uid channelName (tr\<^sub>1 @ [Sleep (3 * Second)]) = (r\<^sub>2, tr\<^sub>2) \<and>
      (\<forall>err. r\<^sub>2 = Inl err \<longrightarrow> \<not> transient_error err) \<longrightarrow>
      Client_StopRecording E c resourceID sid uid channelName tr = (stop_outcome E c r\<^sub>2, tr\<^sub>2) \<and>
      total_sleep tr\<^sub>2 = total_sleep tr + 3 * Second) \<and>
   (\<forall>e\<^sub>1 tr\<^sub>1 e\<^sub>2 tr\<^sub>2 r\<^sub>3 tr\<^sub>3.
      stop_request E c resourceID sid uid channelName tr = (Inl e\<^sub>1, tr\<^sub>1) \<and> transient_error e\<^sub>1 \<and>
      stop_request E c resourceID sid uid channelName (tr\<^sub>1 @ [Sleep (3 * Second)]) = (Inl e\<^sub>2, tr\<^sub>2) \<and>
      transient_error e\<^sub>2 \<and>
      stop_request E c resourceID sid uid channelName (tr\<^sub>2 @ [Sleep (6 * Second)]) = (r\<^sub>3, tr\<^sub>3) \<longrightarrow>
      Client_StopRecording E c resourceID sid uid channelName tr = (stop_outcome E c r\<^sub>3, tr\<^sub>3) \<and>
      total_sleep tr\<^sub>3 = total_sleep tr + 9 * Second \<and>
      requests_made tr\<^sub>3 \<le> requests_made tr + 3)"
proof (intro conjI allI impI)
  fix stopResp
  show "\<exists>result. stop_outcome E c (Inr stopResp) = Inr result \<and> Success result"
    by (simp add: stop_outcome_def stop_result_Success)
next
  fix err
  show "stop_outcome E c (Inl err) = Inl (''stop recording failed: '' @ err)"
    by (simp add: stop_outcome_def)
next
  fix r\<^sub>1 tr\<^sub>1
  assume "stop_request E c resourceID sid uid channelName tr = (r\<^sub>1, tr\<^sub>1) \<and>
      (\<forall>err. r\<^sub>1 = Inl err \<longrightarrow> \<not> transient_error err)"
  then show "Client_StopRecording E c resourceID sid uid channelName tr = (stop_outcome E c r\<^sub>1, tr\<^sub>1)"
    by (simp add: Client_StopRecording_def stopRecordingWithRetry_final)
next
  fix e\<^sub>1 tr\<^sub>1 r\<^sub>2 tr\<^sub>2
  assume a: "stop_request E c resourceID sid uid channelName tr = (Inl e\<^sub>1, tr\<^sub>1) \<and> transient_error e\<^sub>1 \<and>
      stop_request E c resourceID sid uid channelName (tr\<^sub>1 @ [Sleep (3 * Second)]) = (r\<^sub>2, tr\<^sub>2) \<and>
      (\<forall>err. r\<^sub>2 = Inl err \<longrightarrow> \<not> transient_error err)"
  then have 1: "stop_request E c resourceID sid uid channelName tr = (Inl e\<^sub>1, tr\<^sub>1)"
    and t1: "transient_error e\<^sub>1"
    and 2: "stop_request E c resourceID sid uid channelName (tr\<^sub>1 @ [Sleep (3 * Second)]) = (r\<^sub>2, tr\<^sub>2)"
    and n2: "\<forall>err. r\<^sub>2 = Inl err \<longrightarrow> \<not> transient_error err"
    by simp_all
  show "Client_StopRecording E c resourceID sid uid channelName tr = (stop_outcome E c r\<^sub>2, tr\<^sub>2)"
    using t1 by (simp add: Client_StopRecording_def stopRecordingWithRetry_step[OF 1]
        stopRecordingWithRetry_final[OF 2 n2])
  show "total_sleep tr\<^sub>2 = total_sleep tr + 3 * Second"
    using makeRequest_total_sleep[OF 1] makeRequest_total_sleep[OF 2] by (simp add: total_sleep_def)
next
  fix e\<^sub>1 tr\<^sub>1 e\<^sub>2 tr\<^sub>2 r\<^sub>3 tr\<^sub>3
  assume a: "stop_request E c resourceID sid uid channelName tr = (Inl e\<^sub>1, tr\<^sub>1) \<and> transient_error e\<^sub>1 \<and>
      stop_request E c resourceID sid uid channelName (tr\<^sub>1 @ [Sleep (3 * Second)]) = (Inl e\<^sub>2, tr\<^sub>2) \<and>
      transient_error e\<^sub>2 \<and>
      stop_request E c resourceID sid uid channelName (tr\<^sub>2 @ [Sleep (6 * Second)]) = (r\<^sub>3, tr\<^sub>3)"
  then have 1: "stop_request E c resourceID sid uid channelName tr = (Inl e\<^sub>1, tr\<^sub>1)"
    and t1: "transient_error e\<^sub>1"
    and 2: "stop_request E c resourceID sid uid channelName (tr\<^sub>1 @ [Sleep (3 * Second)]) = (Inl e\<^sub>2, tr\<^sub>2)"
    and t2: "transient_error e\<^sub>2"
    and 3: "stop_request E c resourceID sid uid channelName (tr\<^sub>2 @ [Sleep (6 * Second)]) = (r\<^sub>3, tr\<^sub>3)"
    by simp_all
  show "Client_StopRecording E c resourceID sid uid channelName tr = (stop_outcome E c r\<^sub>3, tr\<^sub>3)"
    using t1 t2 by (simp add: Client_StopRecording_def stopRecordingWithRetry_step[OF 1]
        stopRecordingWithRetry_step[OF 2] stopRecordingWithRetry_last[OF 3])
  show "total_sleep tr\<^sub>3 = total_sleep tr + 9 * Second"
    using makeRequest_total_sleep[OF 1] makeRequest_total_sleep[OF 2] makeRequest_total_sleep[OF 3]
    by (simp add: total_sleep_def)
  show "requests_made tr\<^sub>3 \<le> requests_made tr + 3"
    using makeRequest_requests_made[OF 1] makeRequest_requests_made[OF 2] makeRequest_requests_made[OF 3]
    by (simp add: requests_made_def)
qed

lemma stop_retry_schedule_runs:
  "Client_StopRecording busy_then_done sample_client ''res1'' ''sid1'' ''7'' ''room-42'' [] =
     (Inr \<lparr>Success = True, ResourceID = [], SID = [], FileName = ''rec.mp4'', S3Key = ''rec.mp4'',
           S3URL = ''https://bucket.s3.us-west-2.amazonaws.com/rec.mp4'',
           FileList = [''rec.m3u8'', ''rec.mp4''], FileSize = 1024, Duration = 0\<rparr>,
      [sample_stop_call, Sleep 3000000000, sample_stop_call, Sleep 6000000000, sample_stop_call]) \<and>
   total_sleep [sample_stop_call, Sleep 3000000000, sample_stop_call, Sleep 6000000000, sample_stop_call]
     = 9 * Second \<and>
   Client_StopRecording always_busy sample_client ''res1'' ''sid1'' ''7'' ''room-42'' [] =
     (Inl ''stop recording failed: API error (status 400): request not completed'',
      [sample_stop_call, Sleep 3000000000, sample_stop_call, Sleep 6000000000, sample_stop_call]) \<and>
   Client_StopRecording session_gone sample_client ''res1'' ''sid1'' ''7'' ''room-42'' [] =
     (Inl ''stop recording failed: API error (status 404): no such session'', [sample_stop_call])"
proof -
  let ?busy = "''API error (status 400): request not completed''"
  let ?done = "[(''resourceId'', JString ''res1''), (''sid'', JString ''sid1''),
                  (''serverResponse'', JObject [(''fileList'', JArray
                     [JObject [(''fileName'', JString ''rec.m3u8'')],
                      JObject [(''fileName'', JString ''rec.mp4''), (''fileSize'', JNumber 1024)]])])]"
  let ?tr\<^sub>3 = "[sample_stop_call, Sleep 3000000000, sample_stop_call, Sleep 6000000000, sample_stop_call]"
  have t: "transient_error ?busy" by code_simp
  have a1: "stop_request busy_then_done sample_client ''res1'' ''sid1'' ''7'' ''room-42'' [] =
      (Inl ?busy, [sample_stop_call])"
    by code_simp
  have a2: "stop_request busy_then_done sample_client ''res1'' ''sid1'' ''7'' ''room-42''
      ([sample_stop_call] @ [Sleep (3 * Second)]) =
      (Inl ?busy, [sample_stop_call, Sleep 3000000000, sample_stop_call])"
    by code_simp
  have a3: "stop_request busy_then_done sample_client ''res1'' ''sid1'' ''7'' ''room-42''
      ([sample_stop_call, Sleep 3000000000, sample_stop_call] @ [Sleep (6 * Second)]) = (Inr ?done, ?tr\<^sub>3)"
    by code_simp
  have a: "Client_StopRecording busy_then_done sample_client ''res1'' ''sid1'' ''7'' ''room-42'' [] =
      (stop_outcome busy_then_done sample_client (Inr ?done), ?tr\<^sub>3) \<and>
      total_sleep ?tr\<^sub>3 = total_sleep [] + 9 * Second"
    using stop_retry_schedule[where E = busy_then_done and c = sample_client and resourceID = "''res1''"
        and sid = "''sid1''" and uid = "''7''" and channelName = "''room-42''" and tr = "[]"]
      t a1 a2 a3 by blast
  have ao: "stop_outcome busy_then_done sample_client (Inr ?done) =
      Inr \<lparr>Success = True, ResourceID = [], SID = [], FileName = ''rec.mp4'', S3Key = ''rec.mp4'',
           S3URL = ''https://bucket.s3.us-west-2.amazonaws.com/rec.mp4'',
           FileList = [''rec.m3u8'', ''rec.mp4''], FileSize = 1024, Duration = 0\<rparr>"
    by code_simp
  have b1: "stop_request always_busy sample_client ''res1'' ''sid1'' ''7'' ''room-42'' [] =
      (Inl ?busy, [sample_stop_call])"
    by code_simp
  have b2: "stop_request always_busy sample_client ''res1'' ''sid1'' ''7'' ''room-42''
      ([sample_stop_call] @ [Sleep (3 * Second)]) =
      (Inl ?busy, [sample_stop_call, Sleep 3000000000, sample_stop_call])"
    by code_simp
  have b3: "stop_request always_busy sample_client ''res1'' ''sid1'' ''7'' ''room-42''
      ([sample_stop_call, Sleep 3000000000, sample_stop_call] @ [Sleep (6 * Second)]) = (Inl ?busy, ?tr\<^sub>3)"
    by code_simp
  have b: "Client_StopRecording always_busy sample_client ''res1'' ''sid1'' ''7'' ''room-42'' [] =
      (stop_outcome always_busy sample_client (Inl ?busy), ?tr\<^sub>3)"
    using stop_retry_schedule[where E = always_busy and c = sample_client and resourceID = "''res1''"
        and sid = "''sid1''" and uid = "''7''" and channelName = "''room-42''" and tr = "[]"]
      t b1 b2 b3 by blast
  have n: "\<forall>err. (Inl ''API error (status 404): no such session'' :: string + (string \<times> json) list) = Inl err
      \<longrightarrow> \<not> transient_error err"
    by (simp add: transient_error_def)
  have c1: "stop_request session_gone sample_client ''res1'' ''sid1'' ''7'' ''room-42'' [] =
      (Inl ''API error (status 404): no such session'', [sample_stop_call])"
    by code_simp
  have c: "Client_StopRecording session_gone sample_client ''res1'' ''sid1'' ''7'' ''room-42'' [] =
      (stop_outcome session_gone sample_client (Inl ''API error (status 404): no such session''),
       [sample_stop_call])"
    using stop_retry_schedule[where E = session_gone and c = sample_client and resourceID = "''res1''"
        and sid = "''sid1''" and uid = "''7''" and channelName = "''room-42''" and tr = "[]"]
      n c1 by blast
  have bo: "stop_outcome always_busy sample_client (Inl ?busy) =
      Inl ''stop recording failed: API error (status 400): request not completed''"
    by (simp add: stop_outcome_def)
  have co: "stop_outcome session_gone sample_client (Inl ''API error (status 404): no such session'') =
      Inl ''stop recording failed: API error (status 404): no such session''"
    by (simp add: stop_outcome_def)
  show ?thesis
    using a b c unfolding ao bo co by (simp add: total_sleep_def)
qed

text \<open>
  Claim C2 against the code. The claim's transient class is the upstream error with code
  65, \<open>request not completed\<close>, and the comment in \<open>stopRecordingWithRetry\<close> announces a check
  for error code 65. The code never reads the \<open>code\<close> field of the answer: it searches the
  error text for the digits. So an error answer that carries the code 65 without the
  reason text is returned after the first request, without a retry, and a permanent error
  whose message contains the digits 65 is retried twice, after sleeps of 3 and 6 seconds.
\<close>

theorem StopRecording_error_code_65:
  "json_Unmarshal code_65_only ''code65'' = Inr [(''code'', JNumber 65)] \<and>
   Client_StopRecording code_65_only sample_client ''res1'' ''sid1'' ''7'' ''room-42'' [] =
     (Inl ''stop recording failed: API error (status 400): '', [sample_stop_call]) \<and>
   json_Unmarshal uid_65_unknown ''unknown'' =
     Inr [(''code'', JNumber 2), (''message'', JString ''uid 65 is not in channel'')] \<and>
   Client_StopRecording uid_65_unknown sample_client ''res1'' ''sid1'' ''7'' ''room-42'' [] =
     (Inl ''stop recording failed: API error (status 404): uid 65 is not in channel'',
      [sample_stop_call, Sleep 3000000000, sample_stop_call, Sleep 6000000000, sample_stop_call])"
  by code_simp

lemma Contains_append:
  "Contains b substr \<Longrightarrow> Contains (a @ b @ c) substr"
proof -
  assume "Contains b substr"
  then obtain p q where "b = p @ substr @ q" by (auto simp: Contains_iff)
  then have "a @ b @ c = (a @ p) @ substr @ (q @ c)" by simp
  then show ?thesis unfolding Contains_iff by blast
qed

text \<open>
  Claim C9. The retry is triggered by a substring test on the error text: an error whose
  text contains \<open>65\<close> anywhere, or \<open>request not completed\<close>, is retried while fewer than
  two retries have been made, and any other error is returned at once. An error of
  \<open>makeRequest\<close> whose status code or message contains the digits 65 therefore passes
  the test, whether or not it is transient.
\<close>

theorem stop_retry_trigger:
  "(transient_error err \<longleftrightarrow>
      (\<exists>p q. err = p @ ''65'' @ q) \<or> (\<exists>p q. err = p @ ''request not completed'' @ q)) \<and>
   (\<forall>tr\<^sub>1. stop_request E c resourceID sid uid channelName tr = (Inl err, tr\<^sub>1) \<longrightarrow>
      stopRecordingWithRetry E c resourceID sid uid channelName retryCount tr =
        (if transient_error err \<and> retryCount < 2
         then stopRecordingWithRetry E c resourceID sid uid channelName (retryCount + 1)
                (tr\<^sub>1 @ [Sleep ((retryCount + 1) * 3 * Second)])
         else (Inl (''stop recording failed: '' @ err), tr\<^sub>1))) \<and>
   (\<forall>status msg. Contains (format_d status) ''65'' \<or> Contains msg ''65'' \<longrightarrow>
      transient_error (''API error (status '' @ format_d status @ ''): '' @ msg))"
proof (intro conjI allI impI)
  show "transient_error err \<longleftrightarrow>
      (\<exists>p q. err = p @ ''65'' @ q) \<or> (\<exists>p q. err = p @ ''request not completed'' @ q)"
    by (simp only: transient_error_def Contains_iff)
next
  fix tr\<^sub>1
  assume "stop_request E c resourceID sid uid channelName tr = (Inl err, tr\<^sub>1)"
  from stopRecordingWithRetry_step[OF this]
  show "stopRecordingWithRetry E c resourceID sid uid channelName retryCount tr =
        (if transient_error err \<and> retryCount < 2
         then stopRecordingWithRetry E c resourceID sid uid channelName (retryCount + 1)
                (tr\<^sub>1 @ [Sleep ((retryCount + 1) * 3 * Second)])
         else (Inl (''stop recording failed: '' @ err), tr\<^sub>1))"
    by simp
next
  fix status msg
  assume "Contains (format_d status) ''65'' \<or> Contains msg ''65''"
  then show "transient_error (''API error (status '' @ format_d status @ ''): '' @ msg)"
  proof
    assume "Contains (format_d status) ''65''"
    then have "Contains (''API error (status '' @ format_d status @ (''): '' @ msg)) ''65''"
      by (rule Contains_append)
    then show ?thesis by (simp add: transient_error_def)
  next
    assume "Contains msg ''65''"
    then have "Contains ((''API error (status '' @ format_d status @ ''): '') @ msg @ []) ''65''"
      by (rule Contains_append)
    then show ?thesis by (simp add: transient_error_def)
  qed
qed

theorem stop_retry_trigger_witness:
  "transient_error ''API error (status 404): sid 1265 not found'' \<and>
   transient_error (''API error (status '' @ format_d 465 @ ''): '') \<and>
   Client_StopRecording sid_1265_missing sample_client ''res1'' ''sid1'' ''7'' ''room-42'' [] =
     stopRecordingWithRetry sid_1265_missing sample_client ''res1'' ''sid1'' ''7'' ''room-42'' 1
       [sample_stop_call, Sleep 3000000000] \<and>
   Client_StopRecording sid_1265_missing sample_client ''res1'' ''sid1'' ''7'' ''room-42'' [] =
     (Inl ''stop recording failed: API error (status 404): sid 1265 not found'',
      [sample_stop_call, Sleep 3000000000, sample_stop_call, Sleep 6000000000, sample_stop_call]) \<and>
   \<not> transient_error ''API error (status 404): no such session'' \<and>
   Client_StopRecording session_gone sample_client ''res1'' ''sid1'' ''7'' ''room-42'' [] =
     (Inl ''stop recording failed: API error (status 404): no such session'', [sample_stop_call])"
proof -
  let ?e = "''API error (status 404): sid 1265 not found''"
  have t: "transient_error ?e" by code_simp
  have t': "transient_error (''API error (status '' @ format_d 465 @ ''): '')"
  proof -
    have "Contains (format_d 465) ''65''" by code_simp
    then show ?thesis
      using stop_retry_trigger[THEN conjunct2, THEN conjunct2, rule_format, of 465 "[]"] by simp
  qed
  have 1: "stop_request sid_1265_missing sample_client ''res1'' ''sid1'' ''7'' ''room-42'' [] =
      (Inl ?e, [sample_stop_call])"
    by code_simp
  have 2: "stop_request sid_1265_missing sample_client ''res1'' ''sid1'' ''7'' ''room-42''
      ([sample_stop_call] @ [Sleep ((0 + 1) * 3 * Second)]) =
      (Inl ?e, [sample_stop_call, Sleep 3000000000, sample_stop_call])"
    by code_simp
  have 3: "stop_request sid_1265_missing sample_client ''res1'' ''sid1'' ''7'' ''room-42''
      ([sample_stop_call, Sleep 3000000000, sample_stop_call] @ [Sleep ((1 + 1) * 3 * Second)]) =
      (Inl ?e, [sample_stop_call, Sleep 3000000000, sample_stop_call, Sleep 6000000000, sample_stop_call])"
    by code_simp
  have s0: "stopRecordingWithRetry sid_1265_missing sample_client ''res1'' ''sid1'' ''7'' ''room-42'' 0 [] =
      stopRecordingWithRetry sid_1265_missing sample_client ''res1'' ''sid1'' ''7'' ''room-42'' (0 + 1)
        ([sample_stop_call] @ [Sleep ((0 + 1) * 3 * Second)])"
    using stop_retry_trigger[where E = sid_1265_missing and c = sample_client and resourceID = "''res1''"
        and sid = "''sid1''" and uid = "''7''" and channelName = "''room-42''" and tr = "[]"
        and err = ?e and retryCount = 0] 1 t
    by simp
  have s1: "stopRecordingWithRetry sid_1265_missing sample_client ''res1'' ''sid1'' ''7'' ''room-42'' (0 + 1)
        ([sample_stop_call] @ [Sleep ((0 + 1) * 3 * Second)]) =
      stopRecordingWithRetry sid_1265_missing sample_client ''res1'' ''sid1'' ''7'' ''room-42'' (1 + 1)
        ([sample_stop_call, Sleep 3000000000, sample_stop_call] @ [Sleep ((1 + 1) * 3 * Second)])"
    using stop_retry_trigger[where E = sid_1265_missing and c = sample_client and resourceID = "''res1''"
        and sid = "''sid1''" and uid = "''7''" and channelName = "''room-42''"
        and tr = "[sample_stop_call] @ [Sleep ((0 + 1) * 3 * Second)]"
        and err = ?e and retryCount = "0 + 1"] 2 t
    by simp
  have s2: "stopRecordingWithRetry sid_1265_missing sample_client ''res1'' ''sid1'' ''7'' ''room-42'' (1 + 1)
        ([sample_stop_call, Sleep 3000000000, sample_stop_call] @ [Sleep ((1 + 1) * 3 * Second)]) =
      (Inl (''stop recording failed: '' @ ?e),
       [sample_stop_call, Sleep 3000000000, sample_stop_call, Sleep 6000000000, sample_stop_call])"
    using stop_retry_trigger[where E = sid_1265_missing and c = sample_client and resourceID = "''res1''"
        and sid = "''sid1''" and uid = "''7''" and channelName = "''room-42''"
        and tr = "[sample_stop_call, Sleep 3000000000, sample_stop_call] @ [Sleep ((1 + 1) * 3 * Second)]"
        and err = ?e and retryCount = "1 + 1"] 3
    by simp
  have n: "\<not> transient_error ''API error (status 404): no such session''"
    by (simp add: transient_error_def)
  have c1: "stop_request session_gone sample_client ''res1'' ''sid1'' ''7'' ''room-42'' [] =
      (Inl ''API error (status 404): no such session'', [sample_stop_call])"
    by code_simp
  have c: "stopRecordingWithRetry session_gone sample_client ''res1'' ''sid1'' ''7'' ''room-42'' 0 [] =
      (Inl (''stop recording failed: '' @ ''API error (status 404): no such session''), [sample_stop_call])"
    using stop_retry_trigger[where E = session_gone and c = sample_client and resourceID = "''res1''"
        and sid = "''sid1''" and uid = "''7''" and channelName = "''room-42''" and tr = "[]"
        and err = "''API error (status 404): no such session''" and retryCount = 0] c1 n
    by simp
  show ?thesis
    using t t' n s0 s1 s2 c by (simp add: Client_StopRecording_def Second_def)
qed

section \<open>The storage folder: proofs\<close>

lemma alphanumeric_rune_of_char: "alphanumeric_rune (of_char c) \<longleftrightarrow> letter_or_digit c"
  by (cases c) (simp add: alphanumeric_rune_def letter_or_digit_def)

lemma alphanumeric_rune_ascii: "alphanumeric_rune r \<Longrightarrow> r < 128"
  by (auto simp: alphanumeric_rune_def)

lemma letter_or_digit_ascii: "letter_or_digit c \<Longrightarrow> (of_char c :: nat) < 128"
  using alphanumeric_rune_ascii alphanumeric_rune_of_char by blast

lemma two_byte: "194 \<le> b0 \<Longrightarrow> b0 \<le> 223 \<Longrightarrow> 128 \<le> (b0 mod 32) * 64 + (b1::nat) mod 64"
proof -
  assume "194 \<le> b0" "b0 \<le> 223"
  then have "2 \<le> b0 mod 32" by presburger
  then show ?thesis by simp
qed

lemma three_byte:
  "224 \<le> b0 \<Longrightarrow> b0 \<le> 239 \<Longrightarrow> accept_lo b0 \<le> b1 \<Longrightarrow> b1 \<le> accept_hi b0 \<Longrightarrow>
   128 \<le> (b0 mod 16) * 4096 + (b1 mod 64) * 64 + (b2::nat) mod 64"
proof -
  assume a: "224 \<le> b0" "b0 \<le> 239" "accept_lo b0 \<le> b1" "b1 \<le> accept_hi b0"
  show ?thesis
  proof (cases "b0 = 224")
    case True
    with a have "160 \<le> b1" "b1 \<le> 191" by (simp_all add: accept_lo_def accept_hi_def)
    then have "32 \<le> b1 mod 64" by presburger
    then show ?thesis by simp
  next
    case False
    with a have "1 \<le> b0 mod 16" by presburger
    then show ?thesis by simp
  qed
qed

lemma four_byte:
  "240 \<le> b0 \<Longrightarrow> b0 \<le> 244 \<Longrightarrow> accept_lo b0 \<le> b1 \<Longrightarrow> b1 \<le> accept_hi b0 \<Longrightarrow>
   128 \<le> (b0 mod 8) * 262144 + (b1 mod 64) * 4096 + (b2 mod 64) * 64 + (b3::nat) mod 64"
proof -
  assume a: "240 \<le> b0" "b0 \<le> 244" "accept_lo b0 \<le> b1" "b1 \<le> accept_hi b0"
  show ?thesis
  proof (cases "b0 = 240")
    case True
    with a have "144 \<le> b1" "b1 \<le> 191" by (simp_all add: accept_lo_def accept_hi_def)
    then have "16 \<le> b1 mod 64" by presburger
    then show ?thesis by simp
  next
    case False
    with a have "1 \<le> b0 mod 8" by presburger
    then show ?thesis by simp
  qed
qed

lemma accept_lo_ge: "accept_lo b0 \<le> b1 \<Longrightarrow> 128 \<le> b1"
  by (simp add: accept_lo_def split: if_splits)

lemma DecodeRune_cases:
  assumes "DecodeRune (c # s) = (r, width)"
  shows "((of_char c :: nat) < 128 \<and> r = of_char c \<and> width = 1) \<or>
         (128 \<le> (of_char c :: nat) \<and> 128 \<le> r \<and> 1 \<le> width \<and>
          (\<forall>x \<in> set (take width (c # s)). 128 \<le> (of_char x :: nat)))"
  using assms
  by (auto simp: Let_def RuneError_def continuation_def two_byte three_byte four_byte
      take_Cons' dest: accept_lo_ge split: if_splits list.splits)


lemma cleanAlphanumeric_loop_filter:
  "cleanAlphanumeric_loop s result = result @ filter letter_or_digit s"
proof (induction s result rule: cleanAlphanumeric_loop.induct)
  case (1 result)
  show ?case by simp
next
  case (2 c s result)
  obtain r width where d: "DecodeRune (c # s) = (r, width)"
    by (cases "DecodeRune (c # s)")
  let ?result' = "if alphanumeric_rune r then result @ [char_of r] else result"
  have step: "cleanAlphanumeric_loop (c # s) result =
      cleanAlphanumeric_loop (drop width (c # s)) ?result'"
    by (simp add: d del: DecodeRune.simps)
  have IH: "cleanAlphanumeric_loop (drop width (c # s)) ?result' =
      ?result' @ filter letter_or_digit (drop width (c # s))"
    using "2.IH"[OF d[symmetric]] .
  from DecodeRune_cases[OF d] show ?case
  proof
    assume a: "(of_char c :: nat) < 128 \<and> r = of_char c \<and> width = 1"
    then show ?thesis
      unfolding step IH by (simp add: alphanumeric_rune_of_char)
  next
    assume b: "128 \<le> (of_char c :: nat) \<and> 128 \<le> r \<and> 1 \<le> width \<and>
          (\<forall>x \<in> set (take width (c # s)). 128 \<le> (of_char x :: nat))"
    then have nr: "\<not> alphanumeric_rune r"
      using alphanumeric_rune_ascii[of r] by auto
    have "filter letter_or_digit (take width (c # s)) = []"
      using b letter_or_digit_ascii by (fastforce simp: filter_empty_conv)
    then have "filter letter_or_digit (c # s) = filter letter_or_digit (drop width (c # s))"
      by (metis append_Nil append_take_drop_id filter_append)
    then show ?thesis
      unfolding step IH by (simp add: nr)
  qed
qed

lemma cleanAlphanumeric_filter: "cleanAlphanumeric s = filter letter_or_digit s"
  by (simp add: cleanAlphanumeric_def cleanAlphanumeric_loop_filter)



lemma fileNamePrefix_of_filter:
  "fileNamePrefix_of label =
     (if filter letter_or_digit label = [] then [''recordings'']
      else [''recordings'', filter letter_or_digit label])"
  by (auto simp: fileNamePrefix_of_def Let_def cleanAlphanumeric_filter)

lemma makeRequest_Inr_event:
  "makeRequest E c endpoint method (Some body) tr = (Inr resp, tr') \<Longrightarrow>
   \<exists>url headers text. json_Marshal E body = Inr text \<and> tr' = tr @ [HttpDo method url headers (Some text)]"
  by (auto simp: makeRequest_def Let_def split: if_splits sum.splits option.splits http_response.splits)

lemma Client_StartRecording_request:
  assumes "Client_StartRecording E c channelName uid token loadNumber tr = (Inr result, tr')"
  shows "\<exists>url headers text tr\<^sub>1.
     json_Marshal E (startBody c channelName uid token (fileNamePrefix_of loadNumber)) = Inr text \<and>
     tr' = tr\<^sub>1 @ [HttpDo ''POST'' url headers (Some text)]"
proof -
  from assms obtain acquireResp tr\<^sub>1 resourceID startResp where
    s: "makeRequest E c (''/cloud_recording/resourceid/'' @ resourceID @ ''/mode/mix/start'') ''POST''
          (Some (startBody c channelName uid token (fileNamePrefix_of loadNumber))) tr\<^sub>1 = (Inr startResp, tr')"
    by (auto simp: Client_StartRecording_def Let_def split: if_splits prod.splits sum.splits option.splits)
  from makeRequest_Inr_event[OF s] show ?thesis by blast
qed

text \<open>
  Claim C7, as stated, fails for a load number without any ASCII letter or digit: the
  prefix then has no second segment.
\<close>

theorem fileNamePrefix_of_counterexample:
  "fileNamePrefix_of ''---'' = [''recordings''] \<and>
   fileNamePrefix_of ''---'' \<noteq> [''recordings'', filter letter_or_digit ''---'']"
  by code_simp

text \<open>
  Claim C7, amended. \<open>cleanAlphanumeric\<close> keeps exactly the ASCII letters and digits of
  its argument, in order. The file-name prefix is \<open>recordings\<close> followed by the cleaned
  load number when that is not empty, and \<open>recordings\<close> alone otherwise; it is the prefix
  in the body of the start request, the last request of a successful \<open>StartRecording\<close>.
\<close>

theorem fileNamePrefix_of_label:
  "cleanAlphanumeric label = filter letter_or_digit label \<and>
   fileNamePrefix_of label =
     (if filter letter_or_digit label = [] then [''recordings'']
      else [''recordings'', filter letter_or_digit label]) \<and>
   (\<forall>result tr'. Client_StartRecording E c channelName uid token label tr = (Inr result, tr') \<longrightarrow>
      (\<exists>url headers text tr\<^sub>1.
         json_Marshal E (startBody c channelName uid token (fileNamePrefix_of label)) = Inr text \<and>
         tr' = tr\<^sub>1 @ [HttpDo ''POST'' url headers (Some text)]))"
  using cleanAlphanumeric_filter fileNamePrefix_of_filter Client_StartRecording_request by blast

theorem fileNamePrefix_of_label_witness:
  "cleanAlphanumeric ''LOAD-2024-01!'' = ''LOAD202401'' \<and>
   fileNamePrefix_of ''LOAD-2024-01!'' = [''recordings'', ''LOAD202401''] \<and>
   fileNamePrefix_of ''---'' = [''recordings''] \<and>
   fileNamePrefix_of [] = [''recordings'']"
proof -
  have 1: "filter letter_or_digit ''LOAD-2024-01!'' = ''LOAD202401''" by code_simp
  have 2: "filter letter_or_digit ''---'' = []" by code_simp
  show ?thesis
    using fileNamePrefix_of_label[where label = "''LOAD-2024-01!''"]
      fileNamePrefix_of_label[where label = "''---''"]
      fileNamePrefix_of_label[where label = "[]"]
    unfolding 1 2 by simp
qed

section \<open>The recording service: proofs\<close>

lemma StopRecording_Inl_state:
  "RecordingService_StopRecording E s req tr = (Inl err, s', tr') \<Longrightarrow> s' = s"
  by (auto simp: RecordingService_StopRecording_def Let_def split: option.splits if_splits prod.splits sum.splits)

lemma StopRecording_Inr_state:
  "RecordingService_StopRecording E s req tr = (Inr resp, s', tr') \<Longrightarrow>
   s' = s\<lparr>activeRecordings := (activeRecordings s)(stop_SID req := None)\<rparr>"
  by (auto simp: RecordingService_StopRecording_def Let_def split: option.splits if_splits prod.splits sum.splits)

lemma StopRecording_Inr_iff:
  "(\<exists>resp s' tr'. RecordingService_StopRecording E s req tr = (Inr resp, s', tr')) \<longleftrightarrow>
   stop_validated s req \<and>
   (\<exists>result tr\<^sub>1. Client_StopRecording E (agoraClient s) (stop_ResourceID req) (stop_SID req)
       (stop_UID req) (stop_ChannelName req) tr = (Inr result, tr\<^sub>1))"
  by (auto simp: RecordingService_StopRecording_def stop_validated_def Let_def
      split: option.splits if_splits prod.splits sum.splits)

lemma StartRecording_Inl_state:
  "RecordingService_StartRecording E s req tr = (Inl err, s', tr') \<Longrightarrow> s' = s"
  by (auto simp: RecordingService_StartRecording_def Let_def split: option.splits if_splits prod.splits sum.splits)

lemma StartRecording_Inr_state:
  "RecordingService_StartRecording E s req tr = (Inr resp, s', tr') \<Longrightarrow>
   (\<exists>meeting. meetingRepo_GetByRoomID E tr (start_RoomID req) = Inr meeting \<and>
     s' = s\<lparr>activeRecordings := (activeRecordings s)(started_SID resp \<mapsto>
            \<lparr>active_ResourceID = started_ResourceID resp,
             active_SID = started_SID resp,
             active_ChannelName = start_ChannelName req,
             active_UID = start_UID req,
             active_LoadID = meeting_LoadID meeting,
             active_LoadNumber = (if ns_Valid (meeting_LoadNumber meeting)
                                  then ns_String (meeting_LoadNumber meeting) else [])\<rparr>)\<rparr>)"
  by (auto simp: RecordingService_StartRecording_def Let_def split: option.splits if_splits prod.splits sum.splits)

lemma StartRecording_Inr_iff:
  "(\<exists>resp s' tr'. RecordingService_StartRecording E s req tr = (Inr resp, s', tr')) \<longleftrightarrow>
   (\<exists>meeting result tr\<^sub>1. meetingRepo_GetByRoomID E tr (start_RoomID req) = Inr meeting \<and>
      Client_StartRecording E (agoraClient s) (start_ChannelName req) (start_UID req) (start_Token req)
        (if ns_Valid (meeting_LoadNumber meeting) then ns_String (meeting_LoadNumber meeting) else [])
        (tr @ [GetByRoomID (start_RoomID req)]) = (Inr result, tr\<^sub>1))"
  by (auto simp: RecordingService_StartRecording_def Let_def split: option.splits if_splits prod.splits sum.splits)



text \<open>
  Claim C3. A stop request whose SID is not a key of the map fails with the not-found
  message. When the record exists, the resource id, the channel name and the UID are
  compared with it in this order and the first one that differs is named in the error.
  In all four cases the service and the trace are returned unchanged: no request is sent.
\<close>

theorem StopRecording_validation:
  "(activeRecordings s (stop_SID req) = None \<longrightarrow>
      RecordingService_StopRecording E s req tr =
        (Inl (''recording not found for sid: '' @ stop_SID req @
              ''. Make sure the recording was started and the SID matches.''), s, tr)) \<and>
   (\<forall>recording. activeRecordings s (stop_SID req) = Some recording \<longrightarrow>
      (active_ResourceID recording \<noteq> stop_ResourceID req \<longrightarrow>
         RecordingService_StopRecording E s req tr =
           (Inl (''resourceId mismatch. Expected: '' @ active_ResourceID recording @
                 '', Got: '' @ stop_ResourceID req), s, tr)) \<and>
      (active_ResourceID recording = stop_ResourceID req \<and>
       active_ChannelName recording \<noteq> stop_ChannelName req \<longrightarrow>
         RecordingService_StopRecording E s req tr =
           (Inl (''channelName mismatch. Expected: '' @ active_ChannelName recording @
                 '', Got: '' @ stop_ChannelName req), s, tr)) \<and>
      (active_ResourceID recording = stop_ResourceID req \<and>
       active_ChannelName recording = stop_ChannelName req \<and>
       active_UID recording \<noteq> stop_UID req \<longrightarrow>
         RecordingService_StopRecording E s req tr =
           (Inl (''UID mismatch. The UID used to stop recording ('' @ stop_UID req @
                 '') must match the UID used to start recording ('' @ active_UID recording @ '')''),
            s, tr)))"
  by (simp add: RecordingService_StopRecording_def)

theorem StopRecording_validation_witness:
  "RecordingService_StopRecording busy_then_done sample_service
     \<lparr>stop_ResourceID = ''res1'', stop_SID = ''sid9'', stop_ChannelName = ''room-42'', stop_UID = ''7''\<rparr> [] =
     (Inl ''recording not found for sid: sid9. Make sure the recording was started and the SID matches.'',
      sample_service, []) \<and>
   RecordingService_StopRecording busy_then_done sample_service
     \<lparr>stop_ResourceID = ''res1'', stop_SID = ''sid1'', stop_ChannelName = ''room-42'', stop_UID = ''8''\<rparr> [] =
     (Inl ''UID mismatch. The UID used to stop recording (8) must match the UID used to start recording (7)'',
      sample_service, []) \<and>
   RecordingService_StopRecording busy_then_done sample_service
     \<lparr>stop_ResourceID = ''res2'', stop_SID = ''sid1'', stop_ChannelName = ''room-43'', stop_UID = ''8''\<rparr> [] =
     (Inl ''resourceId mismatch. Expected: res1, Got: res2'', sample_service, []) \<and>
   RecordingService_StopRecording busy_then_done sample_service
     \<lparr>stop_ResourceID = ''res1'', stop_SID = ''sid1'', stop_ChannelName = ''room-43'', stop_UID = ''8''\<rparr> [] =
     (Inl ''channelName mismatch. Expected: room-42, Got: room-43'', sample_service, [])"
  using
    StopRecording_validation[where s = sample_service and E = busy_then_done and tr = "[]" and
      req = "\<lparr>stop_ResourceID = ''res1'', stop_SID = ''sid9'', stop_ChannelName = ''room-42'', stop_UID = ''7''\<rparr>"]
    StopRecording_validation[where s = sample_service and E = busy_then_done and tr = "[]" and
      req = "\<lparr>stop_ResourceID = ''res1'', stop_SID = ''sid1'', stop_ChannelName = ''room-42'', stop_UID = ''8''\<rparr>"]
    StopRecording_validation[where s = sample_service and E = busy_then_done and tr = "[]" and
      req = "\<lparr>stop_ResourceID = ''res2'', stop_SID = ''sid1'', stop_ChannelName = ''room-43'', stop_UID = ''8''\<rparr>"]
    StopRecording_validation[where s = sample_service and E = busy_then_done and tr = "[]" and
      req = "\<lparr>stop_ResourceID = ''res1'', stop_SID = ''sid1'', stop_ChannelName = ''room-43'', stop_UID = ''8''\<rparr>"]
  by (simp add: sample_service_def sample_recording_def)

text \<open>
  Claim C4. \<open>StartRecording\<close> succeeds exactly when the meeting lookup and the upstream
  start succeed, and then stores the record under the SID that the upstream call returned;
  a failed start leaves the service unchanged. \<open>StopRecording\<close> succeeds exactly when the
  request passes the local validation and the upstream stop succeeds, and then removes the
  entry of the request's SID, whatever the gallery write does; a failed stop leaves the
  service unchanged.
\<close>

theorem activeRecordings_lifecycle:
  "(\<forall>meeting result tr\<^sub>1.
      meetingRepo_GetByRoomID E tr (start_RoomID start) = Inr meeting \<and>
      Client_StartRecording E (agoraClient s) (start_ChannelName start) (start_UID start) (start_Token start)
        (if ns_Valid (meeting_LoadNumber meeting) then ns_String (meeting_LoadNumber meeting) else [])
        (tr @ [GetByRoomID (start_RoomID start)]) = (Inr result, tr\<^sub>1) \<longrightarrow>
      (\<exists>resp. RecordingService_StartRecording E s start tr =
         (Inr resp,
          s\<lparr>activeRecordings := (activeRecordings s)(SID result \<mapsto>
              \<lparr>active_ResourceID = ResourceID result,
               active_SID = SID result,
               active_ChannelName = start_ChannelName start,
               active_UID = start_UID start,
               active_LoadID = meeting_LoadID meeting,
               active_LoadNumber = (if ns_Valid (meeting_LoadNumber meeting)
                                    then ns_String (meeting_LoadNumber meeting) else [])\<rparr>)\<rparr>,
          tr\<^sub>1))) \<and>
   ((\<exists>resp s' tr'. RecordingService_StartRecording E s start tr = (Inr resp, s', tr')) \<longleftrightarrow>
      (\<exists>meeting result tr\<^sub>1.
         meetingRepo_GetByRoomID E tr (start_RoomID start) = Inr meeting \<and>
         Client_StartRecording E (agoraClient s) (start_ChannelName start) (start_UID start) (start_Token start)
           (if ns_Valid (meeting_LoadNumber meeting) then ns_String (meeting_LoadNumber meeting) else [])
           (tr @ [GetByRoomID (start_RoomID start)]) = (Inr result, tr\<^sub>1))) \<and>
   (\<forall>err s' tr'. RecordingService_StartRecording E s start tr = (Inl err, s', tr') \<longrightarrow> s' = s) \<and>
   ((\<exists>resp s' tr'. RecordingService_StopRecording E s stop tr = (Inr resp, s', tr')) \<longleftrightarrow>
      stop_validated s stop \<and>
      (\<exists>result tr\<^sub>1. Client_StopRecording E (agoraClient s) (stop_ResourceID stop) (stop_SID stop)
         (stop_UID stop) (stop_ChannelName stop) tr = (Inr result, tr\<^sub>1))) \<and>
   (\<forall>resp s' tr'. RecordingService_StopRecording E s stop tr = (Inr resp, s', tr') \<longrightarrow>
      s' = s\<lparr>activeRecordings := (activeRecordings s)(stop_SID stop := None)\<rparr>) \<and>
   (\<forall>err s' tr'. RecordingService_StopRecording E s stop tr = (Inl err, s', tr') \<longrightarrow> s' = s)"
proof (intro conjI allI impI)
  fix meeting result tr\<^sub>1
  assume "meetingRepo_GetByRoomID E tr (start_RoomID start) = Inr meeting \<and>
      Client_StartRecording E (agoraClient s) (start_ChannelName start) (start_UID start) (start_Token start)
        (if ns_Valid (meeting_LoadNumber meeting) then ns_String (meeting_LoadNumber meeting) else [])
        (tr @ [GetByRoomID (start_RoomID start)]) = (Inr result, tr\<^sub>1)"
  then show "\<exists>resp. RecordingService_StartRecording E s start tr =
         (Inr resp,
          s\<lparr>activeRecordings := (activeRecordings s)(SID result \<mapsto>
              \<lparr>active_ResourceID = ResourceID result,
               active_SID = SID result,
               active_ChannelName = start_ChannelName start,
               active_UID = start_UID start,
               active_LoadID = meeting_LoadID meeting,
               active_LoadNumber = (if ns_Valid (meeting_LoadNumber meeting)
                                    then ns_String (meeting_LoadNumber meeting) else [])\<rparr>)\<rparr>,
          tr\<^sub>1)"
    by (simp add: RecordingService_StartRecording_def Let_def)
qed (simp_all only: StartRecording_Inr_iff StopRecording_Inr_iff,
     (blast dest: StartRecording_Inl_state StopRecording_Inr_state StopRecording_Inl_state)+)


lemma sample_stop_run:
  "Client_StopRecording busy_then_done sample_client ''res1'' ''sid1'' ''7'' ''room-42'' [] =
     (Inr \<lparr>Success = True, ResourceID = [], SID = [], FileName = ''rec.mp4'', S3Key = ''rec.mp4'',
           S3URL = ''https://bucket.s3.us-west-2.amazonaws.com/rec.mp4'',
           FileList = [''rec.m3u8'', ''rec.mp4''], FileSize = 1024, Duration = 0\<rparr>,
      [sample_stop_call, Sleep 3000000000, sample_stop_call, Sleep 6000000000, sample_stop_call])"
  by code_simp

lemma sample_stop_fails:
  "Client_StopRecording always_busy sample_client ''res1'' ''sid1'' ''7'' ''room-42'' [] =
     (Inl ''stop recording failed: API error (status 400): request not completed'',
      [sample_stop_call, Sleep 3000000000, sample_stop_call, Sleep 6000000000, sample_stop_call])"
  by code_simp

lemma sample_start_run:
  "Client_StartRecording start_accepted sample_client ''room-42'' ''7'' ''006app'' ''LOAD-2024-01!''
     ([] @ [GetByRoomID ''load_12_ab12cd34ef56'']) =
   (Inr \<lparr>Success = True, ResourceID = ''res1'', SID = ''sid1'', FileName = [], S3Key = [], S3URL = [],
         FileList = [], FileSize = 0, Duration = 0\<rparr>,
    [GetByRoomID ''load_12_ab12cd34ef56'', sample_acquire_call, sample_start_call])"
  by code_simp

lemma sample_start_fails:
  "Client_StartRecording start_refused sample_client ''room-42'' ''7'' ''006app'' ''LOAD-2024-01!''
     ([] @ [GetByRoomID ''load_12_ab12cd34ef56'']) =
   (Inl ''start recording failed: API error (status 400): invalid token'',
    [GetByRoomID ''load_12_ab12cd34ef56'', sample_acquire_call, sample_start_call])"
  by code_simp

theorem activeRecordings_lifecycle_witness:
  "(\<exists>resp tr'. RecordingService_StartRecording start_accepted idle_service sample_start [] =
      (Inr resp, sample_service, tr')) \<and>
   (\<exists>err tr'. RecordingService_StartRecording start_refused idle_service sample_start [] =
      (Inl err, idle_service, tr')) \<and>
   (\<exists>resp tr'. RecordingService_StopRecording busy_then_done sample_service sample_stop [] =
      (Inr resp, idle_service, tr')) \<and>
   (\<exists>err tr'. RecordingService_StopRecording always_busy sample_service sample_stop [] =
      (Inl err, sample_service, tr')) \<and>
   (\<exists>err tr'. RecordingService_StopRecording busy_then_done sample_service
      (sample_stop\<lparr>stop_UID := ''8''\<rparr>) [] = (Inl err, sample_service, tr'))"
proof -
  have m1: "meetingRepo_GetByRoomID start_accepted [] (start_RoomID sample_start) = Inr sample_meeting"
    by (simp add: start_accepted_def scripted_env_def)
  have m2: "meetingRepo_GetByRoomID start_refused [] (start_RoomID sample_start) = Inr sample_meeting"
    by (simp add: start_refused_def scripted_env_def)
  have args: "agoraClient idle_service = sample_client" "start_ChannelName sample_start = ''room-42''"
    "start_UID sample_start = ''7''" "start_Token sample_start = ''006app''"
    "start_RoomID sample_start = ''load_12_ab12cd34ef56''"
    "(if ns_Valid (meeting_LoadNumber sample_meeting) then ns_String (meeting_LoadNumber sample_meeting)
      else []) = ''LOAD-2024-01!''"
    by (simp_all add: idle_service_def sample_start_def sample_meeting_def)
  have stop_args: "agoraClient sample_service = sample_client" "stop_ResourceID sample_stop = ''res1''"
    "stop_SID sample_stop = ''sid1''" "stop_UID sample_stop = ''7''"
    "stop_ChannelName sample_stop = ''room-42''"
    by (simp_all add: sample_service_def sample_stop_def)
  have v: "stop_validated sample_service sample_stop"
    by (simp add: stop_validated_def sample_service_def sample_stop_def sample_recording_def)
  have nv: "\<not> stop_validated sample_service (sample_stop\<lparr>stop_UID := ''8''\<rparr>)"
    by (simp add: stop_validated_def sample_service_def sample_stop_def sample_recording_def)
  have inserted: "idle_service\<lparr>activeRecordings := (activeRecordings idle_service)(''sid1'' \<mapsto>
        \<lparr>active_ResourceID = ''res1'', active_SID = ''sid1'', active_ChannelName = ''room-42'',
         active_UID = ''7'', active_LoadID = meeting_LoadID sample_meeting,
         active_LoadNumber = ''LOAD-2024-01!''\<rparr>)\<rparr> = sample_service"
    by (simp add: idle_service_def sample_service_def sample_recording_def sample_meeting_def)
  have removed: "sample_service\<lparr>activeRecordings := (activeRecordings sample_service)(''sid1'' := None)\<rparr>
      = idle_service"
    by (simp add: idle_service_def sample_service_def)
  note L1 = activeRecordings_lifecycle[where E = start_accepted and s = idle_service and start = sample_start
      and tr = "[]"]
  note L2 = activeRecordings_lifecycle[where E = start_refused and s = idle_service and start = sample_start
      and tr = "[]"]
  note L3 = activeRecordings_lifecycle[where E = busy_then_done and s = sample_service and stop = sample_stop
      and tr = "[]"]
  note L4 = activeRecordings_lifecycle[where E = always_busy and s = sample_service and stop = sample_stop
      and tr = "[]"]
  note L5 = activeRecordings_lifecycle[where E = busy_then_done and s = sample_service
      and stop = "sample_stop\<lparr>stop_UID := ''8''\<rparr>" and tr = "[]"]
  have 1: "\<exists>resp tr'. RecordingService_StartRecording start_accepted idle_service sample_start [] =
      (Inr resp, sample_service, tr')"
    using L1[THEN conjunct1, rule_format, of sample_meeting _ _] m1 sample_start_run
    unfolding args by (simp add: inserted) blast
  have 2: "\<exists>err tr'. RecordingService_StartRecording start_refused idle_service sample_start [] =
      (Inl err, idle_service, tr')"
  proof -
    obtain r s' tr' where run: "RecordingService_StartRecording start_refused idle_service sample_start [] =
        (r, s', tr')"
      by (cases "RecordingService_StartRecording start_refused idle_service sample_start []")
    have "\<not> (\<exists>resp s' tr'. RecordingService_StartRecording start_refused idle_service sample_start [] =
        (Inr resp, s', tr'))"
      using L2[THEN conjunct2, THEN conjunct1] m2 sample_start_fails unfolding args
      by (simp add: sample_meeting_def)
    with run obtain err where "r = Inl err" by (cases r) auto
    with run L2 show ?thesis by blast
  qed
  have 3: "\<exists>resp tr'. RecordingService_StopRecording busy_then_done sample_service sample_stop [] =
      (Inr resp, idle_service, tr')"
  proof -
    have "\<exists>resp s' tr'. RecordingService_StopRecording busy_then_done sample_service sample_stop [] =
        (Inr resp, s', tr')"
      using L3 v sample_stop_run unfolding stop_args by simp
    then obtain resp s' tr' where run:
      "RecordingService_StopRecording busy_then_done sample_service sample_stop [] = (Inr resp, s', tr')"
      by blast
    with L3 have "s' = sample_service\<lparr>activeRecordings :=
        (activeRecordings sample_service)(stop_SID sample_stop := None)\<rparr>"
      by blast
    with run show ?thesis unfolding stop_args removed by blast
  qed
  have 4: "\<exists>err tr'. RecordingService_StopRecording always_busy sample_service sample_stop [] =
      (Inl err, sample_service, tr')"
  proof -
    obtain r s' tr' where run: "RecordingService_StopRecording always_busy sample_service sample_stop [] =
        (r, s', tr')"
      by (cases "RecordingService_StopRecording always_busy sample_service sample_stop []")
    have "\<not> (\<exists>resp s' tr'. RecordingService_StopRecording always_busy sample_service sample_stop [] =
        (Inr resp, s', tr'))"
      using L4 sample_stop_fails unfolding stop_args by simp
    with run obtain err where "r = Inl err" by (cases r) auto
    with run L4 show ?thesis by blast
  qed
  have 5: "\<exists>err tr'. RecordingService_StopRecording busy_then_done sample_service
      (sample_stop\<lparr>stop_UID := ''8''\<rparr>) [] = (Inl err, sample_service, tr')"
  proof -
    obtain r s' tr' where run: "RecordingService_StopRecording busy_then_done sample_service
        (sample_stop\<lparr>stop_UID := ''8''\<rparr>) [] = (r, s', tr')"
      by (cases "RecordingService_StopRecording busy_then_done sample_service
        (sample_stop\<lparr>stop_UID := ''8''\<rparr>) []")
    have "\<not> (\<exists>resp s' tr'. RecordingService_StopRecording busy_then_done sample_service
        (sample_stop\<lparr>stop_UID := ''8''\<rparr>) [] = (Inr resp, s', tr'))"
      using L5 nv by simp
    with run obtain err where "r = Inl err" by (cases r) auto
    with run L5 show ?thesis by blast
  qed
  from 1 2 3 4 5 show ?thesis by blast
qed

text \<open>
  Claim C10. After a successful upstream stop the gallery write is attempted exactly when
  the returned S3 key is not empty and the record's load id is greater than 0. In every
  case the response has \<open>Success\<close> true and status \<open>completed\<close> and the record is removed;
  a failed write only prints a warning.
\<close>

theorem StopRecording_gallery:
  assumes "activeRecordings s (stop_SID req) = Some recording"
    and "active_ResourceID recording = stop_ResourceID req"
    and "active_ChannelName recording = stop_ChannelName req"
    and "active_UID recording = stop_UID req"
    and "Client_StopRecording E (agoraClient s) (stop_ResourceID req) (stop_SID req)
           (stop_UID req) (stop_ChannelName req) tr = (Inr result, tr\<^sub>1)"
  shows "RecordingService_StopRecording E s req tr =
     (Inr \<lparr>stopped_Success = True,
           stopped_FileName = FileName result,
           stopped_S3Key = S3Key result,
           stopped_S3URL = S3URL result,
           stopped_FileList = FileList result,
           stopped_FileSize = FileSize result,
           stopped_Duration = Duration result,
           stopped_Status = ''completed'',
           stopped_Warning = []\<rparr>,
      s\<lparr>activeRecordings := (activeRecordings s)(stop_SID req := None)\<rparr>,
      tr\<^sub>1 @
      (if S3Key result \<noteq> [] \<and> 0 < active_LoadID recording
       then GalleryCreate \<lparr>gallery_LoadID = active_LoadID recording,
                           gallery_FileName = FileName result,
                           gallery_S3Key = [],
                           gallery_VideoRecordingKey = S3Key result\<rparr> #
            (case galleryRepo_Create E tr\<^sub>1
                    \<lparr>gallery_LoadID = active_LoadID recording,
                     gallery_FileName = FileName result,
                     gallery_S3Key = [],
                     gallery_VideoRecordingKey = S3Key result\<rparr> of
               Some err \<Rightarrow> [Printf (''Warning: Failed to save video recording to gallery: '' @
                                     err @ [CHR 0x0A])]
             | None \<Rightarrow> [])
       else []))"
  using assms
  by (simp add: RecordingService_StopRecording_def Let_def split: option.splits)


theorem StopRecording_gallery_witness:
  "RecordingService_StopRecording busy_then_done sample_service sample_stop [] =
     (Inr \<lparr>stopped_Success = True, stopped_FileName = ''rec.mp4'', stopped_S3Key = ''rec.mp4'',
           stopped_S3URL = ''https://bucket.s3.us-west-2.amazonaws.com/rec.mp4'',
           stopped_FileList = [''rec.m3u8'', ''rec.mp4''], stopped_FileSize = 1024,
           stopped_Duration = 0, stopped_Status = ''completed'', stopped_Warning = []\<rparr>,
      idle_service,
      [sample_stop_call, Sleep 3000000000, sample_stop_call, Sleep 6000000000, sample_stop_call,
       GalleryCreate \<lparr>gallery_LoadID = 12, gallery_FileName = ''rec.mp4'', gallery_S3Key = [],
                      gallery_VideoRecordingKey = ''rec.mp4''\<rparr>,
       Printf (''Warning: Failed to save video recording to gallery: db down'' @ [CHR 0x0A])]) \<and>
   RecordingService_StopRecording busy_then_done
     (sample_service\<lparr>activeRecordings := [''sid1'' \<mapsto> sample_recording\<lparr>active_LoadID := 0\<rparr>]\<rparr>)
     sample_stop [] =
     (Inr \<lparr>stopped_Success = True, stopped_FileName = ''rec.mp4'', stopped_S3Key = ''rec.mp4'',
           stopped_S3URL = ''https://bucket.s3.us-west-2.amazonaws.com/rec.mp4'',
           stopped_FileList = [''rec.m3u8'', ''rec.mp4''], stopped_FileSize = 1024,
           stopped_Duration = 0, stopped_Status = ''completed'', stopped_Warning = []\<rparr>,
      idle_service,
      [sample_stop_call, Sleep 3000000000, sample_stop_call, Sleep 6000000000, sample_stop_call])"
proof -
  have g: "galleryRepo_Create busy_then_done tr g = Some ''db down''" for tr g
    by (simp add: busy_then_done_def scripted_env_def)
  have 1: "activeRecordings sample_service (stop_SID sample_stop) = Some sample_recording"
    by (simp add: sample_service_def sample_stop_def)
  have 2: "activeRecordings
      (sample_service\<lparr>activeRecordings := [''sid1'' \<mapsto> sample_recording\<lparr>active_LoadID := 0\<rparr>]\<rparr>)
      (stop_SID sample_stop) = Some (sample_recording\<lparr>active_LoadID := 0\<rparr>)"
    by (simp add: sample_stop_def)
  have run: "Client_StopRecording busy_then_done (agoraClient sample_service) (stop_ResourceID sample_stop)
      (stop_SID sample_stop) (stop_UID sample_stop) (stop_ChannelName sample_stop) [] =
     (Inr \<lparr>Success = True, ResourceID = [], SID = [], FileName = ''rec.mp4'', S3Key = ''rec.mp4'',
           S3URL = ''https://bucket.s3.us-west-2.amazonaws.com/rec.mp4'',
           FileList = [''rec.m3u8'', ''rec.mp4''], FileSize = 1024, Duration = 0\<rparr>,
      [sample_stop_call, Sleep 3000000000, sample_stop_call, Sleep 6000000000, sample_stop_call])"
    using sample_stop_run by (simp add: sample_service_def sample_stop_def)
  have run': "Client_StopRecording busy_then_done
      (agoraClient (sample_service\<lparr>activeRecordings := [''sid1'' \<mapsto> sample_recording\<lparr>active_LoadID := 0\<rparr>]\<rparr>))
      (stop_ResourceID sample_stop) (stop_SID sample_stop) (stop_UID sample_stop)
      (stop_ChannelName sample_stop) [] =
     (Inr \<lparr>Success = True, ResourceID = [], SID = [], FileName = ''rec.mp4'', S3Key = ''rec.mp4'',
           S3URL = ''https://bucket.s3.us-west-2.amazonaws.com/rec.mp4'',
           FileList = [''rec.m3u8'', ''rec.mp4''], FileSize = 1024, Duration = 0\<rparr>,
      [sample_stop_call, Sleep 3000000000, sample_stop_call, Sleep 6000000000, sample_stop_call])"
    using sample_stop_run by (simp add: sample_service_def sample_stop_def)
  show ?thesis
    using StopRecording_gallery[OF 1 _ _ _ run] StopRecording_gallery[OF 2 _ _ _ run']
    by (simp add: g sample_recording_def sample_stop_def sample_service_def idle_service_def)
qed

end
